theory Spec2Isabelle
  imports Complex_Main
begin

section \<open>Operyx Kitchen Pro frontend: API client, formatting utilities, pages\<close>

text \<open>
  A shallow embedding of the TypeScript sources \<^verbatim>\<open>src/api/client.ts\<close>,
  \<^verbatim>\<open>src/utils/format.ts\<close>, \<^verbatim>\<open>src/components/Layout.tsx\<close> and the four workflow
  pages. A JavaScript string is a \<open>string\<close> whose characters stand for UTF-16 code units
  below 256; a thrown exception is the \<open>Inl\<close> of a sum; an awaited network call is a
  function that returns either what the promise rejected with or what it resolved to.
\<close>

subsection \<open>JavaScript values\<close>

text \<open>
  The values \<^verbatim>\<open>response.json()\<close> can produce, and \<^verbatim>\<open>undefined\<close>. An object is the
  association list of its own properties, looked up with \<open>map_of\<close>.
\<close>

datatype jsval =
    JUndefined
  | JNull
  | JBool bool
  | JNum rat
  | JStr string
  | JArr "jsval list"
  | JObj "(string \<times> jsval) list"

text \<open>
  What the client can throw: \<^verbatim>\<open>new Error(message)\<close>, the \<^verbatim>\<open>SyntaxError\<close> of a body
  that is not JSON, and the \<^verbatim>\<open>TypeError\<close> of a property read on \<^verbatim>\<open>null\<close> or
  \<^verbatim>\<open>undefined\<close> or of a \<^verbatim>\<open>fetch\<close> that could not reach the network.
\<close>

datatype thrown = Error string | SyntaxError | TypeError

text \<open>\<^verbatim>\<open>v.k\<close>: a property read. None of the names the client reads is inherited.\<close>

fun get_prop :: "jsval \<Rightarrow> string \<Rightarrow> thrown + jsval" where
  "get_prop JUndefined k = Inl TypeError"
| "get_prop JNull k = Inl TypeError"
| "get_prop (JObj kvs) k = Inr (case map_of kvs k of None \<Rightarrow> JUndefined | Some v \<Rightarrow> v)"
| "get_prop v k = Inr JUndefined"

text \<open>\<^verbatim>\<open>ToBoolean\<close>, and the two defaults the client writes with \<^verbatim>\<open>||\<close>.\<close>

fun truthy :: "jsval \<Rightarrow> bool" where
  "truthy JUndefined = False"
| "truthy JNull = False"
| "truthy (JBool b) = b"
| "truthy (JNum n) = (n \<noteq> 0)"
| "truthy (JStr s) = (s \<noteq> [])"
| "truthy (JArr xs) = True"
| "truthy (JObj kvs) = True"

definition or_null :: "jsval \<Rightarrow> jsval" where
  "or_null v = (if truthy v then v else JNull)"

definition or_empty :: "jsval \<Rightarrow> jsval" where
  "or_empty v = (if truthy v then v else JArr [])"

subsection \<open>Strings\<close>

text \<open>\<^verbatim>\<open>String(n)\<close> of a non-negative integer: its decimal digits.\<close>

definition digit_char :: "nat \<Rightarrow> char" where
  "digit_char d = ''0123456789'' ! d"

fun show_nat :: "nat \<Rightarrow> string" where
  "show_nat n = (if n < 10 then [digit_char n] else show_nat (n div 10) @ [digit_char (n mod 10)])"

declare show_nat.simps [simp del]

text \<open>\<^verbatim>\<open>s.startsWith(sub)\<close> and \<^verbatim>\<open>s.includes(sub)\<close>.\<close>

definition startsWith :: "string \<Rightarrow> string \<Rightarrow> bool" where
  "startsWith s sub = (take (length sub) s = sub)"

fun str_includes :: "string \<Rightarrow> string \<Rightarrow> bool" where
  "str_includes [] sub = (sub = [])"
| "str_includes (c # cs) sub = (startsWith (c # cs) sub \<or> str_includes cs sub)"

subsection \<open>HTTP\<close>

text \<open>
  A request as \<^verbatim>\<open>fetch\<close> receives it, and the response it resolves to. The body of
  a response has arrived in full, so reading it does not fail. \<open>contentType\<close> is
  \<^verbatim>\<open>response.headers.get("content-type")\<close>; \<open>json_body\<close> is the body parsed as JSON,
  \<open>None\<close> when it is not JSON.
\<close>

datatype http_body = NoBody | JsonBody jsval | FormData "(string \<times> string) list"

record request =
  req_method :: string
  url :: string
  req_body :: http_body

record response =
  status :: nat
  statusText :: string
  contentType :: "string option"
  json_body :: "jsval option"

type_synonym fetch = "request \<Rightarrow> thrown + response"

definition API_BASE :: string where
  "API_BASE = ''/api''"

definition GET :: "string \<Rightarrow> request" where
  "GET u = \<lparr>req_method = ''GET'', url = u, req_body = NoBody\<rparr>"

text \<open>\<^verbatim>\<open>response.ok\<close>: a status from 200 to 299.\<close>

definition ok :: "response \<Rightarrow> bool" where
  "ok r = (200 \<le> status r \<and> status r \<le> 299)"

text \<open>\<^verbatim>\<open>await response.json()\<close>.\<close>

definition json :: "response \<Rightarrow> thrown + jsval" where
  "json r = (case json_body r of None \<Rightarrow> Inl SyntaxError | Some d \<Rightarrow> Inr d)"

subsection \<open>The API client: single-record reads\<close>

text \<open>
  The seven single-record reads share one body, which differs in the URL, in the words of
  the failure message and in the envelope key:
  \<^verbatim>\<open>
  if (!response.ok) {
    if (response.status === 404) { return null; }
    throw new Error(`Failed to fetch budget: ${response.statusText}`);
  }
  const data = await response.json();
  return data.budget || null;
  \<close>
\<close>

definition single_record :: "string \<Rightarrow> string \<Rightarrow> thrown + response \<Rightarrow> thrown + jsval" where
  "single_record what key fetched =
     (case fetched of
        Inl e \<Rightarrow> Inl e
      | Inr response \<Rightarrow>
          if \<not> ok response then
            (if status response = 404 then Inr JNull
             else Inl (Error (''Failed to fetch '' @ what @ '': '' @ statusText response)))
          else
            (case json response of
               Inl e \<Rightarrow> Inl e
             | Inr data \<Rightarrow>
                 (case get_prop data key of Inl e \<Rightarrow> Inl e | Inr v \<Rightarrow> Inr (or_null v))))"

definition getMondayBrief :: "fetch \<Rightarrow> string \<Rightarrow> string \<Rightarrow> string \<Rightarrow> thrown + jsval" where
  "getMondayBrief fetch tenantId venueId weekStartDate =
     single_record ''Monday brief'' ''brief''
       (fetch (GET (API_BASE @ ''/monday-briefs/'' @ tenantId @ ''/venue/'' @ venueId
                    @ ''/week?weekStartDate='' @ weekStartDate)))"

definition getBudget :: "fetch \<Rightarrow> string \<Rightarrow> string \<Rightarrow> thrown + jsval" where
  "getBudget fetch tenantId budgetId =
     single_record ''budget'' ''budget''
       (fetch (GET (API_BASE @ ''/budgets/'' @ tenantId @ ''/'' @ budgetId)))"

definition getConfirmedBudget :: "fetch \<Rightarrow> string \<Rightarrow> string \<Rightarrow> thrown + jsval" where
  "getConfirmedBudget fetch tenantId venueId =
     single_record ''confirmed budget'' ''budget''
       (fetch (GET (API_BASE @ ''/budgets/'' @ tenantId @ ''/venue/'' @ venueId @ ''/confirmed'')))"

definition getLabourPlan :: "fetch \<Rightarrow> string \<Rightarrow> string \<Rightarrow> thrown + jsval" where
  "getLabourPlan fetch tenantId labourPlanId =
     single_record ''labour plan'' ''labourPlan''
       (fetch (GET (API_BASE @ ''/labour-plans/'' @ tenantId @ ''/'' @ labourPlanId)))"

definition getConfirmedLabourPlan :: "fetch \<Rightarrow> string \<Rightarrow> string \<Rightarrow> thrown + jsval" where
  "getConfirmedLabourPlan fetch tenantId venueId =
     single_record ''confirmed labour plan'' ''labourPlan''
       (fetch (GET (API_BASE @ ''/labour-plans/'' @ tenantId @ ''/venue/'' @ venueId
                    @ ''/confirmed'')))"

definition getCashSnapshotByWeek :: "fetch \<Rightarrow> string \<Rightarrow> string \<Rightarrow> string \<Rightarrow> thrown + jsval" where
  "getCashSnapshotByWeek fetch tenantId venueId weekStartDate =
     single_record ''cash snapshot'' ''snapshot''
       (fetch (GET (API_BASE @ ''/cash-snapshots/'' @ tenantId @ ''/venue/'' @ venueId
                    @ ''/week/'' @ weekStartDate)))"

definition getEvidence :: "fetch \<Rightarrow> string \<Rightarrow> string \<Rightarrow> thrown + jsval" where
  "getEvidence fetch tenantId evidenceId =
     single_record ''evidence'' ''evidence''
       (fetch (GET (API_BASE @ ''/evidence/'' @ tenantId @ ''/'' @ evidenceId)))"

text \<open>A network that answers every request with the same response.\<close>

definition respond_with :: "response \<Rightarrow> fetch" where
  "respond_with r req = Inr r"

subsection \<open>The API client: list of venues, upload\<close>

definition getVenues :: "fetch \<Rightarrow> string \<Rightarrow> thrown + jsval" where
  "getVenues fetch tenantId =
     (case fetch (GET (API_BASE @ ''/venues/'' @ tenantId)) of
        Inl e \<Rightarrow> Inl e
      | Inr response \<Rightarrow>
          if \<not> ok response then
            Inl (Error (''Failed to fetch venues: '' @ statusText response))
          else
            (case json response of
               Inl e \<Rightarrow> Inl e
             | Inr data \<Rightarrow>
                 (case get_prop data ''venues'' of Inl e \<Rightarrow> Inl e | Inr v \<Rightarrow> Inr (or_empty v))))"

datatype EvidenceSource = Rota | Pos | Payroll | Other

fun source_string :: "EvidenceSource \<Rightarrow> string" where
  "source_string Rota = ''rota''"
| "source_string Pos = ''pos''"
| "source_string Payroll = ''payroll''"
| "source_string Other = ''other''"

text \<open>A \<^verbatim>\<open>File\<close> is what the form sends of it.\<close>

type_synonym File = string

text \<open>
  \<^verbatim>\<open>!contentType || !contentType.includes("application/json")\<close>: the header is absent,
  empty, or does not contain the media type.
\<close>

definition non_json :: "string option \<Rightarrow> bool" where
  "non_json header =
     (case header of
        None \<Rightarrow> True
      | Some ct \<Rightarrow> ct = [] \<or> \<not> str_includes ct ''application/json'')"

text \<open>
  \<^verbatim>\<open>new Error(error.error || fallback)\<close>: the message is \<^verbatim>\<open>String(error.error)\<close> when that
  value is truthy. \<open>ToString\<close> is the engine's conversion, taken as a parameter; on a
  string it is the string itself.
\<close>

definition error_or :: "(jsval \<Rightarrow> string) \<Rightarrow> jsval \<Rightarrow> string \<Rightarrow> string" where
  "error_or ToString v fallback =
     (if truthy v then (case v of JStr s \<Rightarrow> s | _ \<Rightarrow> ToString v) else fallback)"

text \<open>
  \<^verbatim>\<open>uploadEvidence\<close>. The text of a non-JSON body is read only to be logged, so the model
  leaves it out.
\<close>

definition uploadEvidence ::
  "(jsval \<Rightarrow> string) \<Rightarrow> fetch \<Rightarrow> string \<Rightarrow> string \<Rightarrow> File \<Rightarrow> EvidenceSource \<Rightarrow> string
     \<Rightarrow> thrown + jsval" where
  "uploadEvidence ToString fetch tenantId venueId file source uploadedBy =
     (let formData = [(''file'', file), (''source'', source_string source),
                      (''uploadedBy'', uploadedBy)]
      in case fetch \<lparr>req_method = ''POST'',
                     url = API_BASE @ ''/evidence/'' @ tenantId @ ''/venue/'' @ venueId @ ''/upload'',
                     req_body = FormData formData\<rparr> of
        Inl e \<Rightarrow> Inl e
      | Inr response \<Rightarrow>
          if non_json (contentType response) then
            Inl (Error (''Server returned non-JSON response ('' @ show_nat (status response)
                        @ ''). This may indicate an authentication or routing issue.''))
          else if \<not> ok response then
            (case json response of
               Inl e \<Rightarrow> Inl e
             | Inr error \<Rightarrow>
                 (case get_prop error ''error'' of
                    Inl e \<Rightarrow> Inl e
                  | Inr m \<Rightarrow>
                      Inl (Error (error_or ToString m
                                    (''Failed to upload evidence: '' @ statusText response)))))
          else json response)"

subsection \<open>Layout: the venue selector\<close>

text \<open>
  \<^verbatim>\<open>data.filter((v) => v.status === "active")\<close>. The callback throws on an element that
  is \<^verbatim>\<open>null\<close>; a value that is not an array has no \<^verbatim>\<open>filter\<close> to call.
\<close>

definition is_active :: "jsval \<Rightarrow> thrown + bool" where
  "is_active v = (case get_prop v ''status'' of Inl e \<Rightarrow> Inl e | Inr st \<Rightarrow> Inr (st = JStr ''active''))"

fun filter_active :: "jsval list \<Rightarrow> thrown + jsval list" where
  "filter_active [] = Inr []"
| "filter_active (v # vs) =
     (case is_active v of
        Inl e \<Rightarrow> Inl e
      | Inr keep \<Rightarrow>
          (case filter_active vs of
             Inl e \<Rightarrow> Inl e
           | Inr rest \<Rightarrow> Inr (if keep then v # rest else rest)))"

record layout =
  venues :: "jsval list"
  layout_loading :: bool

text \<open>
  \<^verbatim>\<open>loadVenues\<close>: a failure is logged and leaves \<open>venues\<close> as it was; either way
  \<open>loading\<close> ends false. The selector renders one option for each element of \<open>venues\<close>.
\<close>

definition loadVenues :: "fetch \<Rightarrow> string \<Rightarrow> layout \<Rightarrow> layout" where
  "loadVenues fetch tenantId s =
     (case getVenues fetch tenantId of
        Inl e \<Rightarrow> s\<lparr>layout_loading := False\<rparr>
      | Inr data \<Rightarrow>
          (case data of
             JArr vs \<Rightarrow>
               (case filter_active vs of
                  Inl e \<Rightarrow> s\<lparr>layout_loading := False\<rparr>
                | Inr active \<Rightarrow> s\<lparr>venues := active, layout_loading := False\<rparr>)
           | _ \<Rightarrow> s\<lparr>layout_loading := False\<rparr>))"

text \<open>A record of the shape the client's \<^verbatim>\<open>Venue\<close> type declares.\<close>

definition Venue :: "string \<Rightarrow> string \<Rightarrow> string \<Rightarrow> string \<Rightarrow> jsval" where
  "Venue vid tenantId name createdAt =
     JObj [(''id'', JStr vid), (''tenantId'', JStr tenantId), (''name'', JStr name),
           (''createdAt'', JStr createdAt)]"

subsection \<open>Workflow pages: entities\<close>

text \<open>
  The entity types of \<^verbatim>\<open>src/types\<close>. A payload is an open JSON object. The statuses of
  a budget and of a labour plan are the same three strings.
\<close>

datatype BudgetStatus = Draft | Confirmed | Superseded

type_synonym LabourPlanStatus = BudgetStatus

datatype CandidateStatus = Pending | CandidateConfirmed | Rejected

datatype EvidenceType = Image | Csv

record Budget =
  budget_id :: string
  budget_tenantId :: string
  budget_venueId :: string
  budget_status :: BudgetStatus
  budget_payload :: jsval
  budget_createdBy :: string
  budget_confirmedBy :: "string option"
  budget_createdAt :: string
  budget_confirmedAt :: "string option"

record BudgetVersion =
  bv_id :: string
  bv_budgetId :: string
  bv_tenantId :: string
  bv_version :: int
  bv_payload :: jsval
  bv_createdBy :: string
  bv_createdAt :: string

record LabourPlan =
  plan_id :: string
  plan_tenantId :: string
  plan_venueId :: string
  plan_status :: LabourPlanStatus
  plan_payload :: jsval
  plan_createdBy :: string
  plan_confirmedBy :: "string option"
  plan_createdAt :: string
  plan_confirmedAt :: "string option"

record LabourPlanVersion =
  lv_id :: string
  lv_labourPlanId :: string
  lv_tenantId :: string
  lv_version :: int
  lv_payload :: jsval
  lv_createdBy :: string
  lv_createdAt :: string

record CashSnapshot =
  snapshot_id :: string
  snapshot_tenantId :: string
  snapshot_venueId :: string
  snapshot_weekStartDate :: string
  snapshot_isCorrection :: bool
  snapshot_correctsSnapshotId :: "string option"
  snapshot_correctionReason :: "string option"
  snapshot_payload :: jsval
  snapshot_createdBy :: string
  snapshot_createdAt :: string

record Evidence =
  evidence_id :: string
  evidence_tenantId :: string
  evidence_venueId :: string
  evidence_type :: EvidenceType
  evidence_source :: EvidenceSource
  evidence_fileName :: string
  evidence_mimeType :: string
  evidence_uploadedBy :: string
  evidence_createdAt :: string

record EvidenceCandidate =
  candidate_id :: string
  candidate_evidenceId :: string
  candidate_tenantId :: string
  candidate_status :: CandidateStatus
  candidate_payload :: jsval
  candidate_reviewedBy :: "string option"
  candidate_reviewedAt :: "string option"
  candidate_rejectionReason :: "string option"
  candidate_canonicalRecordId :: "string option"
  candidate_createdAt :: string

subsection \<open>Workflow pages: the client as the pages see it\<close>

text \<open>
  What a \<^verbatim>\<open>catch (err)\<close> receives from a rejected client call: an \<^verbatim>\<open>Error\<close> with its
  message, or some other value. \<open>message_or\<close> is
  \<^verbatim>\<open>err instanceof Error ? err.message : fallback\<close>.
\<close>

datatype caught = IsError string | NotError

fun message_or :: "caught \<Rightarrow> string \<Rightarrow> string" where
  "message_or (IsError m) fallback = m"
| "message_or NotError fallback = fallback"

definition CURRENT_USER_ID :: string where
  "CURRENT_USER_ID = ''operator-user''"

text \<open>The client calls a page makes, in the order it makes them.\<close>

datatype call =
    GetBudgets string string "BudgetStatus option"
  | CreateBudget string string jsval string
  | ConfirmBudget string string jsval string
  | GetLabourPlans string string "LabourPlanStatus option"
  | CreateLabourPlan string string jsval string
  | ConfirmLabourPlan string string jsval string
  | CreateCashSnapshot string string string jsval string
  | CreateCorrectionSnapshot string string string jsval string string
  | UploadEvidence string string File EvidenceSource string
  | GetCandidatesByEvidence string string
  | GetPendingCandidates string
  | ConfirmCandidate string string string
  | RejectCandidate string string string string

text \<open>
  The outcome of each awaited client call, by its TypeScript signature: \<open>Inl\<close> what the
  promise rejected with, \<open>Inr\<close> what it resolved to.
\<close>

record budget_result =
  budget :: Budget
  version :: BudgetVersion

record labour_result =
  labourPlan :: LabourPlan
  planVersion :: LabourPlanVersion

record snapshot_result =
  snapshot :: CashSnapshot

record evidence_result =
  evidence :: Evidence

record candidate_result =
  candidate :: EvidenceCandidate
  canonicalRecord :: jsval

record rejected_result =
  rejected :: EvidenceCandidate

record budget_api =
  call_getBudgets :: "string \<Rightarrow> string \<Rightarrow> BudgetStatus option \<Rightarrow> caught + Budget list"
  call_createBudget :: "string \<Rightarrow> string \<Rightarrow> jsval \<Rightarrow> string \<Rightarrow> caught + budget_result"
  call_confirmBudget :: "string \<Rightarrow> string \<Rightarrow> jsval \<Rightarrow> string \<Rightarrow> caught + budget_result"

record labour_api =
  call_getLabourPlans ::
    "string \<Rightarrow> string \<Rightarrow> LabourPlanStatus option \<Rightarrow> caught + LabourPlan list"
  call_createLabourPlan :: "string \<Rightarrow> string \<Rightarrow> jsval \<Rightarrow> string \<Rightarrow> caught + labour_result"
  call_confirmLabourPlan :: "string \<Rightarrow> string \<Rightarrow> jsval \<Rightarrow> string \<Rightarrow> caught + labour_result"

record cash_api =
  call_createCashSnapshot ::
    "string \<Rightarrow> string \<Rightarrow> string \<Rightarrow> jsval \<Rightarrow> string \<Rightarrow> caught + snapshot_result"
  call_createCorrectionSnapshot ::
    "string \<Rightarrow> string \<Rightarrow> string \<Rightarrow> jsval \<Rightarrow> string \<Rightarrow> string \<Rightarrow> caught + snapshot_result"

record evidence_api =
  call_uploadEvidence ::
    "string \<Rightarrow> string \<Rightarrow> File \<Rightarrow> EvidenceSource \<Rightarrow> string \<Rightarrow> caught + evidence_result"
  call_getCandidatesByEvidence :: "string \<Rightarrow> string \<Rightarrow> caught + EvidenceCandidate list"
  call_getPendingCandidates :: "string \<Rightarrow> caught + EvidenceCandidate list"
  call_confirmCandidate :: "string \<Rightarrow> string \<Rightarrow> string \<Rightarrow> caught + candidate_result"
  call_rejectCandidate :: "string \<Rightarrow> string \<Rightarrow> string \<Rightarrow> string \<Rightarrow> caught + rejected_result"

subsection \<open>Workflow pages: state\<close>

text \<open>
  The state every workflow page holds (\<open>venueId\<close> comes from the URL), then what the three
  pages with a create form add, then each page's own state. \<open>statusFilter\<close> is \<open>None\<close> for
  \<^verbatim>\<open>"all"\<close>, which the pages pass to the client as \<^verbatim>\<open>undefined\<close>.
\<close>

record page =
  venueId :: string
  loading :: bool
  error :: "string option"
  submitting :: bool

record form_page = page +
  showCreateForm :: bool
  formData :: jsval

record budget_page = form_page +
  budgets :: "Budget list"
  selectedBudget :: "Budget option"
  budgetVersions :: "BudgetVersion list"
  budgetStatusFilter :: "BudgetStatus option"

record labour_page = form_page +
  labourPlans :: "LabourPlan list"
  selectedPlan :: "LabourPlan option"
  planVersions :: "LabourPlanVersion list"
  planStatusFilter :: "LabourPlanStatus option"

record cash_page = form_page +
  selectedWeek :: string
  snapshots :: "CashSnapshot list"
  weekHistory :: "CashSnapshot list"
  showCorrectionForm :: bool
  correctionTarget :: "CashSnapshot option"
  correctionData :: jsval
  correctionReason :: string

text \<open>\<open>fileInput\<close> is the value of the file input the ref points to, when it is mounted.\<close>

record evidence_page = page +
  evidenceList :: "Evidence list"
  selectedEvidence :: "Evidence option"
  candidates :: "EvidenceCandidate list"
  pendingCandidates :: "EvidenceCandidate list"
  sourceFilter :: "EvidenceSource option"
  showUploadForm :: bool
  uploadSource :: EvidenceSource
  selectedFile :: "File option"
  fileInput :: "string option"
  showRejectForm :: bool
  rejectTarget :: "EvidenceCandidate option"
  rejectReason :: string

subsection \<open>Workflow pages: handlers\<close>

text \<open>
  A handler takes the state its closure captured at render time and returns the state the
  page holds once the handler has settled, with the client calls it made. Every handler
  has the shape
  \<^verbatim>\<open>
  setSubmitting(true); setError(null);
  try { ... } catch (err) { setError(...); } finally { setSubmitting(false); }
  \<close>
\<close>

definition begin_submit :: "('a page_scheme) \<Rightarrow> ('a page_scheme)" where
  "begin_submit s = s\<lparr>submitting := True, error := None\<rparr>"

definition fail_submit :: "caught \<Rightarrow> string \<Rightarrow> ('a page_scheme) \<Rightarrow> ('a page_scheme)" where
  "fail_submit err fallback s = s\<lparr>error := Some (message_or err fallback), submitting := False\<rparr>"

definition end_submit :: "('a page_scheme) \<Rightarrow> ('a page_scheme)" where
  "end_submit s = s\<lparr>submitting := False\<rparr>"

paragraph \<open>Budget page\<close>

definition budget_form_reset :: jsval where
  "budget_form_reset =
     JObj [(''name'', JStr []), (''description'', JStr []), (''periodStart'', JStr []),
           (''periodEnd'', JStr []), (''revenue'', JNum 0), (''costs'', JNum 0),
           (''labour'', JNum 0)]"

definition handleCreateBudget ::
  "budget_api \<Rightarrow> string \<Rightarrow> budget_page \<Rightarrow> budget_page \<times> call list" where
  "handleCreateBudget api tenantId s =
     (if venueId s = [] then (s, [])
      else
        (case call_createBudget api tenantId (venueId s) (formData s) CURRENT_USER_ID of
           Inr result \<Rightarrow>
             (end_submit ((begin_submit s)\<lparr>budgets := budget result # budgets s,
                                            showCreateForm := False,
                                            formData := budget_form_reset\<rparr>),
              [CreateBudget tenantId (venueId s) (formData s) CURRENT_USER_ID])
         | Inl err \<Rightarrow>
             (fail_submit err ''Failed to create budget'' (begin_submit s),
              [CreateBudget tenantId (venueId s) (formData s) CURRENT_USER_ID])))"

text \<open>
  \<^verbatim>\<open>handleConfirmBudget(budget)\<close> takes the budget of the card whose button was pressed;
  it does not read \<open>selectedBudget\<close>.
\<close>

definition handleConfirmBudget ::
  "budget_api \<Rightarrow> string \<Rightarrow> budget_page \<Rightarrow> Budget \<Rightarrow> budget_page \<times> call list" where
  "handleConfirmBudget api tenantId s b =
     (case call_confirmBudget api tenantId (budget_id b) (budget_payload b) CURRENT_USER_ID of
        Inl err \<Rightarrow>
          (fail_submit err ''Failed to confirm budget'' (begin_submit s),
           [ConfirmBudget tenantId (budget_id b) (budget_payload b) CURRENT_USER_ID])
      | Inr result \<Rightarrow>
          (case call_getBudgets api tenantId (venueId s) (budgetStatusFilter s) of
             Inl err \<Rightarrow>
               (fail_submit err ''Failed to confirm budget'' (begin_submit s),
                [ConfirmBudget tenantId (budget_id b) (budget_payload b) CURRENT_USER_ID,
                 GetBudgets tenantId (venueId s) (budgetStatusFilter s)])
           | Inr data \<Rightarrow>
               (end_submit ((begin_submit s)\<lparr>budgets := data,
                                              selectedBudget := Some (budget result)\<rparr>),
                [ConfirmBudget tenantId (budget_id b) (budget_payload b) CURRENT_USER_ID,
                 GetBudgets tenantId (venueId s) (budgetStatusFilter s)])))"

text \<open>
  The page renders a card for each budget of the list once a venue is chosen and the list
  has loaded; \<^verbatim>\<open>BudgetCard\<close> renders the Confirm button for a draft and disables it while
  a submission is in flight.
\<close>

definition confirm_button_enabled :: "budget_page \<Rightarrow> Budget \<Rightarrow> bool" where
  "confirm_button_enabled s b =
     (venueId s \<noteq> [] \<and> \<not> loading s \<and> b \<in> set (budgets s)
      \<and> budget_status b = Draft \<and> \<not> submitting s)"

paragraph \<open>Labour page\<close>

definition labour_form_reset :: jsval where
  "labour_form_reset =
     JObj [(''name'', JStr []), (''description'', JStr []), (''periodStart'', JStr []),
           (''periodEnd'', JStr []), (''roles'', JArr []), (''totalHours'', JNum 0),
           (''totalCost'', JNum 0), (''headcount'', JNum 0)]"

definition handleCreateLabourPlan ::
  "labour_api \<Rightarrow> string \<Rightarrow> labour_page \<Rightarrow> labour_page \<times> call list" where
  "handleCreateLabourPlan api tenantId s =
     (if venueId s = [] then (s, [])
      else
        (case call_createLabourPlan api tenantId (venueId s) (formData s) CURRENT_USER_ID of
           Inr result \<Rightarrow>
             (end_submit ((begin_submit s)\<lparr>labourPlans := labourPlan result # labourPlans s,
                                            showCreateForm := False,
                                            formData := labour_form_reset\<rparr>),
              [CreateLabourPlan tenantId (venueId s) (formData s) CURRENT_USER_ID])
         | Inl err \<Rightarrow>
             (fail_submit err ''Failed to create labour plan'' (begin_submit s),
              [CreateLabourPlan tenantId (venueId s) (formData s) CURRENT_USER_ID])))"

definition handleConfirmLabourPlan ::
  "labour_api \<Rightarrow> string \<Rightarrow> labour_page \<Rightarrow> LabourPlan \<Rightarrow> labour_page \<times> call list" where
  "handleConfirmLabourPlan api tenantId s p =
     (case call_confirmLabourPlan api tenantId (plan_id p) (plan_payload p) CURRENT_USER_ID of
        Inl err \<Rightarrow>
          (fail_submit err ''Failed to confirm labour plan'' (begin_submit s),
           [ConfirmLabourPlan tenantId (plan_id p) (plan_payload p) CURRENT_USER_ID])
      | Inr result \<Rightarrow>
          (case call_getLabourPlans api tenantId (venueId s) (planStatusFilter s) of
             Inl err \<Rightarrow>
               (fail_submit err ''Failed to confirm labour plan'' (begin_submit s),
                [ConfirmLabourPlan tenantId (plan_id p) (plan_payload p) CURRENT_USER_ID,
                 GetLabourPlans tenantId (venueId s) (planStatusFilter s)])
           | Inr data \<Rightarrow>
               (end_submit ((begin_submit s)\<lparr>labourPlans := data,
                                              selectedPlan := Some (labourPlan result)\<rparr>),
                [ConfirmLabourPlan tenantId (plan_id p) (plan_payload p) CURRENT_USER_ID,
                 GetLabourPlans tenantId (venueId s) (planStatusFilter s)])))"

paragraph \<open>Cash page\<close>

text \<open>
  \<^verbatim>\<open>String.prototype.trim\<close>: the white space and line terminators of ECMAScript among
  the code units below 256 are TAB, LF, VT, FF, CR, SP and NBSP.
\<close>

definition is_whitespace :: "char \<Rightarrow> bool" where
  "is_whitespace c = (of_char c \<in> {9, 10, 11, 12, 13, 32, 160 :: nat})"

definition trim :: "string \<Rightarrow> string" where
  "trim s = rev (dropWhile is_whitespace (rev (dropWhile is_whitespace s)))"

definition cash_form_reset :: jsval where
  "cash_form_reset = JObj [(''revenue'', JNum 0), (''costs'', JNum 0), (''notes'', JStr [])]"

definition handleCreateSnapshot ::
  "cash_api \<Rightarrow> string \<Rightarrow> cash_page \<Rightarrow> cash_page \<times> call list" where
  "handleCreateSnapshot api tenantId s =
     (if venueId s = [] then (s, [])
      else
        (case call_createCashSnapshot api tenantId (venueId s) (selectedWeek s) (formData s)
                CURRENT_USER_ID of
           Inr result \<Rightarrow>
             (end_submit ((begin_submit s)\<lparr>snapshots := snapshot result # snapshots s,
                                            weekHistory := snapshot result # weekHistory s,
                                            showCreateForm := False,
                                            formData := cash_form_reset\<rparr>),
              [CreateCashSnapshot tenantId (venueId s) (selectedWeek s) (formData s)
                 CURRENT_USER_ID])
         | Inl err \<Rightarrow>
             (fail_submit err ''Failed to create snapshot'' (begin_submit s),
              [CreateCashSnapshot tenantId (venueId s) (selectedWeek s) (formData s)
                 CURRENT_USER_ID])))"

definition handleSubmitCorrection ::
  "cash_api \<Rightarrow> string \<Rightarrow> cash_page \<Rightarrow> cash_page \<times> call list" where
  "handleSubmitCorrection api tenantId s =
     (case correctionTarget s of
        None \<Rightarrow> (s, [])
      | Some target \<Rightarrow>
          if trim (correctionReason s) = [] then (s, [])
          else
            (case call_createCorrectionSnapshot api tenantId (snapshot_id target)
                    (selectedWeek s) (correctionData s) CURRENT_USER_ID (correctionReason s) of
               Inr result \<Rightarrow>
                 (end_submit ((begin_submit s)\<lparr>snapshots := snapshot result # snapshots s,
                                                weekHistory := snapshot result # weekHistory s,
                                                showCorrectionForm := False,
                                                correctionTarget := None,
                                                correctionReason := []\<rparr>),
                  [CreateCorrectionSnapshot tenantId (snapshot_id target) (selectedWeek s)
                     (correctionData s) CURRENT_USER_ID (correctionReason s)])
             | Inl err \<Rightarrow>
                 (fail_submit err ''Failed to create correction'' (begin_submit s),
                  [CreateCorrectionSnapshot tenantId (snapshot_id target) (selectedWeek s)
                     (correctionData s) CURRENT_USER_ID (correctionReason s)])))"

paragraph \<open>Evidence page\<close>

definition handleUpload ::
  "evidence_api \<Rightarrow> string \<Rightarrow> evidence_page \<Rightarrow> evidence_page \<times> call list" where
  "handleUpload api tenantId s =
     (if venueId s = [] then (s, [])
      else
        (case selectedFile s of
           None \<Rightarrow> (s, [])
         | Some file \<Rightarrow>
             (case call_uploadEvidence api tenantId (venueId s) file (uploadSource s)
                     CURRENT_USER_ID of
                Inr result \<Rightarrow>
                  (end_submit ((begin_submit s)\<lparr>evidenceList := evidence result # evidenceList s,
                                                 showUploadForm := False,
                                                 selectedFile := None,
                                                 uploadSource := Other,
                                                 fileInput := map_option (\<lambda>v. []) (fileInput s)\<rparr>),
                   [UploadEvidence tenantId (venueId s) file (uploadSource s) CURRENT_USER_ID])
              | Inl err \<Rightarrow>
                  (fail_submit err ''Failed to upload evidence'' (begin_submit s),
                   [UploadEvidence tenantId (venueId s) file (uploadSource s) CURRENT_USER_ID]))))"

text \<open>
  After a confirmed or rejected candidate, both handlers refresh the candidates of the
  selected evidence, when there is one, and then the pending candidates:
  \<^verbatim>\<open>
  if (selectedEvidence) {
    const data = await getCandidatesByEvidence(tenantId, selectedEvidence.id);
    setCandidates(data);
  }
  const pending = await getPendingCandidates(tenantId);
  setPendingCandidates(pending);
  \<close>
  The result is the state reached and the calls made, with the rejection if one of the two
  reads failed.
\<close>

definition refresh_candidates ::
  "evidence_api \<Rightarrow> string \<Rightarrow> evidence_page \<Rightarrow> (evidence_page \<times> call list) \<times> caught option" where
  "refresh_candidates api tenantId s =
     (case selectedEvidence s of
        None \<Rightarrow>
          (case call_getPendingCandidates api tenantId of
             Inl err \<Rightarrow> ((s, [GetPendingCandidates tenantId]), Some err)
           | Inr pending \<Rightarrow>
               ((s\<lparr>pendingCandidates := pending\<rparr>, [GetPendingCandidates tenantId]), None))
      | Some ev \<Rightarrow>
          (case call_getCandidatesByEvidence api tenantId (evidence_id ev) of
             Inl err \<Rightarrow> ((s, [GetCandidatesByEvidence tenantId (evidence_id ev)]), Some err)
           | Inr data \<Rightarrow>
               (case call_getPendingCandidates api tenantId of
                  Inl err \<Rightarrow>
                    ((s\<lparr>candidates := data\<rparr>,
                      [GetCandidatesByEvidence tenantId (evidence_id ev),
                       GetPendingCandidates tenantId]), Some err)
                | Inr pending \<Rightarrow>
                    ((s\<lparr>candidates := data, pendingCandidates := pending\<rparr>,
                      [GetCandidatesByEvidence tenantId (evidence_id ev),
                       GetPendingCandidates tenantId]), None))))"

definition handleConfirm ::
  "evidence_api \<Rightarrow> string \<Rightarrow> evidence_page \<Rightarrow> EvidenceCandidate
     \<Rightarrow> evidence_page \<times> call list" where
  "handleConfirm api tenantId s c =
     (case call_confirmCandidate api tenantId (candidate_id c) CURRENT_USER_ID of
        Inl err \<Rightarrow>
          (fail_submit err ''Failed to confirm candidate'' (begin_submit s),
           [ConfirmCandidate tenantId (candidate_id c) CURRENT_USER_ID])
      | Inr result \<Rightarrow>
          (case refresh_candidates api tenantId (begin_submit s) of
             ((s', calls), Some err) \<Rightarrow>
               (fail_submit err ''Failed to confirm candidate'' s',
                ConfirmCandidate tenantId (candidate_id c) CURRENT_USER_ID # calls)
           | ((s', calls), None) \<Rightarrow>
               (end_submit s',
                ConfirmCandidate tenantId (candidate_id c) CURRENT_USER_ID # calls)))"

definition handleReject ::
  "evidence_api \<Rightarrow> string \<Rightarrow> evidence_page \<Rightarrow> evidence_page \<times> call list" where
  "handleReject api tenantId s =
     (case rejectTarget s of
        None \<Rightarrow> (s, [])
      | Some target \<Rightarrow>
          if trim (rejectReason s) = [] then (s, [])
          else
            (case call_rejectCandidate api tenantId (candidate_id target) CURRENT_USER_ID
                    (rejectReason s) of
               Inl err \<Rightarrow>
                 (fail_submit err ''Failed to reject candidate'' (begin_submit s),
                  [RejectCandidate tenantId (candidate_id target) CURRENT_USER_ID
                     (rejectReason s)])
             | Inr result \<Rightarrow>
                 (case refresh_candidates api tenantId (begin_submit s) of
                    ((s', calls), Some err) \<Rightarrow>
                      (fail_submit err ''Failed to reject candidate'' s',
                       RejectCandidate tenantId (candidate_id target) CURRENT_USER_ID
                         (rejectReason s) # calls)
                  | ((s', calls), None) \<Rightarrow>
                      (end_submit (s'\<lparr>showRejectForm := False,
                                      rejectTarget := None,
                                      rejectReason := []\<rparr>),
                       RejectCandidate tenantId (candidate_id target) CURRENT_USER_ID
                         (rejectReason s) # calls))))"

subsection \<open>Formatting utilities: numbers as JavaScript reads them\<close>

text \<open>
  \<^verbatim>\<open>s.split("/")\<close>: the segments between the separators; a string without one is a
  single segment.
\<close>

fun split_on :: "char \<Rightarrow> string \<Rightarrow> string list" where
  "split_on sep [] = [[]]"
| "split_on sep (c # cs) =
     (if c = sep then [] # split_on sep cs
      else (case split_on sep cs of [] \<Rightarrow> [[c]] | p # ps \<Rightarrow> (c # p) # ps))"

definition is_digit :: "char \<Rightarrow> bool" where
  "is_digit c = (48 \<le> (of_char c :: nat) \<and> (of_char c :: nat) \<le> 57)"

definition digit_value :: "char \<Rightarrow> nat" where
  "digit_value c = of_char c - 48"

definition digits_value :: "string \<Rightarrow> nat" where
  "digits_value ds = foldl (\<lambda>acc c. 10 * acc + digit_value c) 0 ds"

text \<open>
  \<^verbatim>\<open>parseInt(s, 10)\<close>: leading white space is skipped, one sign is read, then the longest
  run of decimal digits; \<open>None\<close> is \<^verbatim>\<open>NaN\<close>, the result when that run is empty. The value
  is the exact integer, which is the JavaScript number whenever it is below
  \<open>2 ^ 53\<close> in magnitude.
\<close>

definition parseInt10 :: "string \<Rightarrow> int option" where
  "parseInt10 s =
     (let S = dropWhile is_whitespace s;
          negative = (S \<noteq> [] \<and> hd S = CHR ''-'');
          S' = (if S \<noteq> [] \<and> (hd S = CHR ''+'' \<or> hd S = CHR ''-'') then tl S else S);
          Z = takeWhile is_digit S'
      in if Z = [] then None
         else Some ((if negative then - 1 else 1) * int (digits_value Z)))"

subsection \<open>Formatting utilities: dates\<close>

text \<open>
  The date arithmetic of ECMAScript (Day Number and Time within Day, \<^verbatim>\<open>MakeDay\<close>,
  \<^verbatim>\<open>MakeDate\<close>, \<^verbatim>\<open>TimeClip\<close>, \<^verbatim>\<open>Date.UTC\<close>) on exact integers. A time value is a number
  of milliseconds since 1 January 1970 UTC; \<open>None\<close> is \<^verbatim>\<open>NaN\<close>, the time value of an
  invalid \<^verbatim>\<open>Date\<close>.
\<close>

definition msPerDay :: int where
  "msPerDay = 86400000"

definition DayFromYear :: "int \<Rightarrow> int" where
  "DayFromYear y =
     365 * (y - 1970) + (y - 1969) div 4 - (y - 1901) div 100 + (y - 1601) div 400"

definition InLeapYear :: "int \<Rightarrow> bool" where
  "InLeapYear y = (y mod 4 = 0 \<and> (y mod 100 \<noteq> 0 \<or> y mod 400 = 0))"

text \<open>The day within the year on which month \<open>mn\<close> (0 to 11) begins.\<close>

definition month_start :: "int \<Rightarrow> bool \<Rightarrow> int" where
  "month_start mn leap =
     (if mn = 0 then 0
      else if mn = 1 then 31
      else [59, 90, 120, 151, 181, 212, 243, 273, 304, 334] ! nat (mn - 2)
           + (if leap then 1 else 0))"

text \<open>
  \<^verbatim>\<open>MakeDay(year, month, date)\<close>: the day number of day 1 of month \<open>month mod 12\<close> of year
  \<open>year + month div 12\<close>, plus \<open>date - 1\<close>.
\<close>

definition MakeDay :: "int \<Rightarrow> int \<Rightarrow> int \<Rightarrow> int" where
  "MakeDay year month date =
     (let ym = year + month div 12; mn = month mod 12
      in DayFromYear ym + month_start mn (InLeapYear ym) + date - 1)"

definition TimeClip :: "int \<Rightarrow> int option" where
  "TimeClip time = (if \<bar>time\<bar> > 8640000000000000 then None else Some time)"

text \<open>A year from 0 to 99 stands for 1900 to 1999.\<close>

definition MakeFullYear :: "int \<Rightarrow> int" where
  "MakeFullYear y = (if 0 \<le> y \<and> y \<le> 99 then 1900 + y else y)"

text \<open>\<^verbatim>\<open>Date.UTC(year, month, day)\<close>, the time of day being midnight.\<close>

definition Date_UTC :: "int \<Rightarrow> int \<Rightarrow> int \<Rightarrow> int option" where
  "Date_UTC year month day = TimeClip (MakeDay (MakeFullYear year) month day * msPerDay)"

text \<open>
  \<^verbatim>\<open>parseUKDate\<close>. The result is the time value of the \<^verbatim>\<open>Date\<close> returned, \<open>None\<close> for
  \<^verbatim>\<open>null\<close>. \<^verbatim>\<open>NaN - 1\<close> is \<^verbatim>\<open>NaN\<close>, and \<^verbatim>\<open>new Date\<close> of a number clips it once more.
\<close>

definition parseUKDate :: "string \<Rightarrow> int option" where
  "parseUKDate dateString =
     (case split_on CHR ''/'' dateString of
        [p0, p1, p2] \<Rightarrow>
          (let day = parseInt10 p0;
               month = map_option (\<lambda>m. m - 1) (parseInt10 p1);
               year = parseInt10 p2
           in case (day, month, year) of
                (Some d, Some m, Some y) \<Rightarrow>
                  (case Date_UTC y m d of
                     None \<Rightarrow> None
                   | Some t \<Rightarrow> TimeClip t)
              | _ \<Rightarrow> None)
      | _ \<Rightarrow> None)"

subsection \<open>Formatting utilities: currency\<close>

text \<open>
  A JavaScript number: \<^verbatim>\<open>NaN\<close>, an infinity with its sign, or a finite number with its
  sign (there is a negative zero) and the magnitude its decimal representation denotes.
  \<^verbatim>\<open>formatCurrency\<close> takes a number or a string.
\<close>

datatype number = NaN | Infinity bool | Finite bool rat

datatype amount = Num number | Str string

text \<open>
  The text \<^verbatim>\<open>toLocaleString\<close> produces can hold the infinity sign U+221E, so it is a list
  of UTF-16 code units; \<open>units\<close> gives the code units of a \<open>string\<close>.
\<close>

type_synonym code_units = "nat list"

definition units :: "string \<Rightarrow> code_units" where
  "units s = map of_char s"

definition pound_sign :: nat where
  "pound_sign = 163"

definition infinity_sign :: nat where
  "infinity_sign = 8734"

text \<open>
  \<^verbatim>\<open>parseFloat\<close>: leading white space is skipped, then the longest prefix that is a
  decimal literal is read: a sign, then \<^verbatim>\<open>Infinity\<close>, or digits with an optional fraction
  and an optional exponent. Without such a prefix the result is \<^verbatim>\<open>NaN\<close>. The literal's
  value is rounded to the nearest number by the engine; \<open>round_double\<close> is that rounding
  on magnitudes, \<open>None\<close> when the value overflows to an infinity.
\<close>

definition pow10 :: "int \<Rightarrow> rat" where
  "pow10 k = (if 0 \<le> k then 10 ^ nat k else 1 / 10 ^ nat (- k))"

definition scan_exponent :: "string \<Rightarrow> int" where
  "scan_exponent r =
     (case r of
        [] \<Rightarrow> 0
      | c # r' \<Rightarrow>
          if c = CHR ''e'' \<or> c = CHR ''E'' then
            (let negative = (r' \<noteq> [] \<and> hd r' = CHR ''-'');
                 r'' = (if r' \<noteq> [] \<and> (hd r' = CHR ''+'' \<or> hd r' = CHR ''-'') then tl r' else r');
                 ds = takeWhile is_digit r''
             in if ds = [] then 0 else (if negative then - 1 else 1) * int (digits_value ds))
          else 0)"

definition parseFloat :: "(rat \<Rightarrow> rat option) \<Rightarrow> string \<Rightarrow> number" where
  "parseFloat round_double s =
     (let S = dropWhile is_whitespace s;
          negative = (S \<noteq> [] \<and> hd S = CHR ''-'');
          S' = (if S \<noteq> [] \<and> (hd S = CHR ''+'' \<or> hd S = CHR ''-'') then tl S else S)
      in if startsWith S' ''Infinity'' then Infinity negative
         else
           (let ip = takeWhile is_digit S';
                r1 = dropWhile is_digit S';
                point = (r1 \<noteq> [] \<and> hd r1 = CHR ''.'');
                fp = (if point then takeWhile is_digit (tl r1) else []);
                r2 = (if point then dropWhile is_digit (tl r1) else r1)
            in if ip = [] \<and> fp = [] then NaN
               else
                 (case round_double (of_nat (digits_value (ip @ fp))
                                      * pow10 (scan_exponent r2 - int (length fp))) of
                    None \<Rightarrow> Infinity negative
                  | Some q \<Rightarrow> Finite negative q)))"

text \<open>
  \<^verbatim>\<open>num.toLocaleString("en-GB", {minimumFractionDigits: 2, maximumFractionDigits: 2})\<close>,
  from ECMA-402 and the locale's data: the magnitude is rounded to hundredths, a tie away
  from zero; the integer part is written in groups of three digits separated by commas,
  then a full stop and the two fraction digits; a negative number, negative zero
  included, has a minus sign in front.
\<close>

definition half_expand_cents :: "rat \<Rightarrow> nat" where
  "half_expand_cents q = nat \<lfloor>\<bar>q\<bar> * 100 + 1 / 2\<rfloor>"

fun group3_rev :: "string \<Rightarrow> string" where
  "group3_rev (a # b # c # d # rest) = a # b # c # CHR '','' # group3_rev (d # rest)"
| "group3_rev ds = ds"

definition grouped :: "nat \<Rightarrow> string" where
  "grouped n = rev (group3_rev (rev (show_nat n)))"

definition two_digits :: "nat \<Rightarrow> string" where
  "two_digits k = [digit_char (k div 10 mod 10), digit_char (k mod 10)]"

definition toLocaleString_enGB_2 :: "number \<Rightarrow> code_units" where
  "toLocaleString_enGB_2 v =
     (case v of
        NaN \<Rightarrow> units ''NaN''
      | Infinity negative \<Rightarrow> units (if negative then ''-'' else []) @ [infinity_sign]
      | Finite negative q \<Rightarrow>
          units ((if negative then ''-'' else [])
                 @ grouped (half_expand_cents q div 100) @ ''.''
                 @ two_digits (half_expand_cents q mod 100)))"

text \<open>\<^verbatim>\<open>formatCurrency\<close>.\<close>

definition to_number :: "(rat \<Rightarrow> rat option) \<Rightarrow> amount \<Rightarrow> number" where
  "to_number round_double v = (case v of Str s \<Rightarrow> parseFloat round_double s | Num n \<Rightarrow> n)"

definition formatCurrency :: "(rat \<Rightarrow> rat option) \<Rightarrow> amount \<Rightarrow> code_units" where
  "formatCurrency round_double v =
     (let num = to_number round_double v
      in if num = NaN then pound_sign # units ''0.00''
         else pound_sign # toLocaleString_enGB_2 num)"

subsection \<open>Example data\<close>

text \<open>
  Concrete entities, pages and backends at which the theorems below are instantiated.
  \<open>failing\<close> backends reject every call with an \<^verbatim>\<open>Error\<close>; the others resolve every
  call.
\<close>

definition ex_payload :: jsval where
  "ex_payload = JObj [(''name'', JStr ''Q1''), (''revenue'', JNum 1000)]"

definition ex_budget :: "string \<Rightarrow> BudgetStatus \<Rightarrow> Budget" where
  "ex_budget i st =
     \<lparr>budget_id = i, budget_tenantId = ''t1'', budget_venueId = ''v1'', budget_status = st,
      budget_payload = ex_payload, budget_createdBy = ''operator-user'',
      budget_confirmedBy = None, budget_createdAt = ''2026-01-27T09:00:00Z'',
      budget_confirmedAt = None\<rparr>"

definition ex_budget_version :: BudgetVersion where
  "ex_budget_version =
     \<lparr>bv_id = ''bv1'', bv_budgetId = ''b2'', bv_tenantId = ''t1'', bv_version = 1,
      bv_payload = ex_payload, bv_createdBy = ''operator-user'',
      bv_createdAt = ''2026-01-27T09:00:00Z''\<rparr>"

definition ex_plan :: "string \<Rightarrow> LabourPlanStatus \<Rightarrow> LabourPlan" where
  "ex_plan i st =
     \<lparr>plan_id = i, plan_tenantId = ''t1'', plan_venueId = ''v1'', plan_status = st,
      plan_payload = ex_payload, plan_createdBy = ''operator-user'',
      plan_confirmedBy = None, plan_createdAt = ''2026-01-27T09:00:00Z'',
      plan_confirmedAt = None\<rparr>"

definition ex_plan_version :: LabourPlanVersion where
  "ex_plan_version =
     \<lparr>lv_id = ''lv1'', lv_labourPlanId = ''p2'', lv_tenantId = ''t1'', lv_version = 1,
      lv_payload = ex_payload, lv_createdBy = ''operator-user'',
      lv_createdAt = ''2026-01-27T09:00:00Z''\<rparr>"

definition ex_snapshot :: "string \<Rightarrow> CashSnapshot" where
  "ex_snapshot i =
     \<lparr>snapshot_id = i, snapshot_tenantId = ''t1'', snapshot_venueId = ''v1'',
      snapshot_weekStartDate = ''2026-01-26'', snapshot_isCorrection = False,
      snapshot_correctsSnapshotId = None, snapshot_correctionReason = None,
      snapshot_payload = ex_payload, snapshot_createdBy = ''operator-user'',
      snapshot_createdAt = ''2026-01-27T09:00:00Z''\<rparr>"

definition ex_evidence :: "string \<Rightarrow> Evidence" where
  "ex_evidence i =
     \<lparr>evidence_id = i, evidence_tenantId = ''t1'', evidence_venueId = ''v1'',
      evidence_type = Csv, evidence_source = Rota, evidence_fileName = ''rota.csv'',
      evidence_mimeType = ''text/csv'', evidence_uploadedBy = ''operator-user'',
      evidence_createdAt = ''2026-01-27T09:00:00Z''\<rparr>"

definition ex_candidate :: "string \<Rightarrow> CandidateStatus \<Rightarrow> EvidenceCandidate" where
  "ex_candidate i st =
     \<lparr>candidate_id = i, candidate_evidenceId = ''e1'', candidate_tenantId = ''t1'',
      candidate_status = st, candidate_payload = ex_payload, candidate_reviewedBy = None,
      candidate_reviewedAt = None, candidate_rejectionReason = None,
      candidate_canonicalRecordId = None, candidate_createdAt = ''2026-01-27T09:00:00Z''\<rparr>"

definition ex_failure :: caught where
  "ex_failure = IsError ''Internal Server Error''"

definition ex_budget_api :: budget_api where
  "ex_budget_api =
     \<lparr>call_getBudgets = (\<lambda>t v f. Inr [ex_budget ''b1'' Confirmed]),
      call_createBudget =
        (\<lambda>t v p u. Inr \<lparr>budget = ex_budget ''b2'' Draft, version = ex_budget_version\<rparr>),
      call_confirmBudget =
        (\<lambda>t i p u. Inr \<lparr>budget = ex_budget ''b1'' Confirmed, version = ex_budget_version\<rparr>)\<rparr>"

definition failing_budget_api :: budget_api where
  "failing_budget_api =
     \<lparr>call_getBudgets = (\<lambda>t v f. Inl ex_failure),
      call_createBudget = (\<lambda>t v p u. Inl ex_failure),
      call_confirmBudget = (\<lambda>t i p u. Inl ex_failure)\<rparr>"

definition ex_budget_page :: budget_page where
  "ex_budget_page =
     \<lparr>venueId = ''v1'', loading = False, error = None, submitting = False,
      showCreateForm = True, formData = ex_payload,
      budgets = [ex_budget ''b1'' Draft], selectedBudget = None, budgetVersions = [],
      budgetStatusFilter = None\<rparr>"

definition ex_labour_api :: labour_api where
  "ex_labour_api =
     \<lparr>call_getLabourPlans = (\<lambda>t v f. Inr [ex_plan ''p1'' Confirmed]),
      call_createLabourPlan =
        (\<lambda>t v p u. Inr \<lparr>labourPlan = ex_plan ''p2'' Draft, planVersion = ex_plan_version\<rparr>),
      call_confirmLabourPlan =
        (\<lambda>t i p u. Inr \<lparr>labourPlan = ex_plan ''p1'' Confirmed, planVersion = ex_plan_version\<rparr>)\<rparr>"

definition failing_labour_api :: labour_api where
  "failing_labour_api =
     \<lparr>call_getLabourPlans = (\<lambda>t v f. Inl ex_failure),
      call_createLabourPlan = (\<lambda>t v p u. Inl ex_failure),
      call_confirmLabourPlan = (\<lambda>t i p u. Inl ex_failure)\<rparr>"

definition ex_labour_page :: labour_page where
  "ex_labour_page =
     \<lparr>venueId = ''v1'', loading = False, error = None, submitting = False,
      showCreateForm = True, formData = ex_payload,
      labourPlans = [ex_plan ''p1'' Draft], selectedPlan = None, planVersions = [],
      planStatusFilter = None\<rparr>"

definition ex_cash_api :: cash_api where
  "ex_cash_api =
     \<lparr>call_createCashSnapshot = (\<lambda>t v w p u. Inr \<lparr>snapshot = ex_snapshot ''s2''\<rparr>),
      call_createCorrectionSnapshot = (\<lambda>t i w p u r. Inr \<lparr>snapshot = ex_snapshot ''s3''\<rparr>)\<rparr>"

definition failing_cash_api :: cash_api where
  "failing_cash_api =
     \<lparr>call_createCashSnapshot = (\<lambda>t v w p u. Inl ex_failure),
      call_createCorrectionSnapshot = (\<lambda>t i w p u r. Inl ex_failure)\<rparr>"

definition ex_cash_page :: "string \<Rightarrow> cash_page" where
  "ex_cash_page reason =
     \<lparr>venueId = ''v1'', loading = False, error = None, submitting = False,
      showCreateForm = True, formData = ex_payload,
      selectedWeek = ''2026-01-26'', snapshots = [ex_snapshot ''s1''],
      weekHistory = [ex_snapshot ''s1''], showCorrectionForm = True,
      correctionTarget = Some (ex_snapshot ''s1''), correctionData = ex_payload,
      correctionReason = reason\<rparr>"

definition ex_evidence_api :: evidence_api where
  "ex_evidence_api =
     \<lparr>call_uploadEvidence = (\<lambda>t v f s u. Inr \<lparr>evidence = ex_evidence ''e2''\<rparr>),
      call_getCandidatesByEvidence = (\<lambda>t e. Inr [ex_candidate ''c1'' Rejected]),
      call_getPendingCandidates = (\<lambda>t. Inr []),
      call_confirmCandidate =
        (\<lambda>t c u. Inr \<lparr>candidate = ex_candidate ''c1'' CandidateConfirmed,
                        canonicalRecord = JNull\<rparr>),
      call_rejectCandidate = (\<lambda>t c u r. Inr \<lparr>rejected = ex_candidate ''c1'' Rejected\<rparr>)\<rparr>"

definition failing_evidence_api :: evidence_api where
  "failing_evidence_api =
     \<lparr>call_uploadEvidence = (\<lambda>t v f s u. Inl ex_failure),
      call_getCandidatesByEvidence = (\<lambda>t e. Inl ex_failure),
      call_getPendingCandidates = (\<lambda>t. Inl ex_failure),
      call_confirmCandidate = (\<lambda>t c u. Inl ex_failure),
      call_rejectCandidate = (\<lambda>t c u r. Inl ex_failure)\<rparr>"

definition ex_evidence_page :: "string \<Rightarrow> evidence_page" where
  "ex_evidence_page reason =
     \<lparr>venueId = ''v1'', loading = False, error = None, submitting = False,
      evidenceList = [ex_evidence ''e1''], selectedEvidence = Some (ex_evidence ''e1''),
      candidates = [ex_candidate ''c1'' Pending],
      pendingCandidates = [ex_candidate ''c1'' Pending], sourceFilter = None,
      showUploadForm = True, uploadSource = Rota, selectedFile = Some ''week,hours'',
      fileInput = Some ''rota.csv'', showRejectForm = True,
      rejectTarget = Some (ex_candidate ''c1'' Pending), rejectReason = reason\<rparr>"

text \<open>Responses: a missing record, a backend failure with an error body, a proxy's HTML
  error page, a body of the wrong media type, and a list of venues.\<close>

definition ex_not_found :: response where
  "ex_not_found =
     \<lparr>status = 404, statusText = ''Not Found'', contentType = Some ''application/json'',
      json_body = Some (JObj [(''error'', JStr ''Budget not found'')])\<rparr>"

definition ex_server_error :: response where
  "ex_server_error =
     \<lparr>status = 500, statusText = ''Internal Server Error'',
      contentType = Some ''application/json'',
      json_body = Some (JObj [(''error'', JStr ''budget store offline'')])\<rparr>"

definition ex_bad_gateway :: response where
  "ex_bad_gateway =
     \<lparr>status = 502, statusText = ''Bad Gateway'', contentType = Some ''text/html'',
      json_body = None\<rparr>"

definition ex_no_content_type :: response where
  "ex_no_content_type =
     \<lparr>status = 200, statusText = ''OK'', contentType = None,
      json_body = Some (JObj [(''evidence'', JObj [(''id'', JStr ''e2'')])])\<rparr>"

definition ex_active_venue :: jsval where
  "ex_active_venue =
     JObj [(''id'', JStr ''v1''), (''tenantId'', JStr ''t1''), (''name'', JStr ''Canal Street''),
           (''createdAt'', JStr ''2026-01-27T09:00:00Z''), (''status'', JStr ''active'')]"

definition ex_closed_venue :: jsval where
  "ex_closed_venue =
     JObj [(''id'', JStr ''v3''), (''tenantId'', JStr ''t1''), (''name'', JStr ''Old Dock''),
           (''createdAt'', JStr ''2026-01-27T09:00:00Z''), (''status'', JStr ''inactive'')]"

definition ex_venues_response :: response where
  "ex_venues_response =
     \<lparr>status = 200, statusText = ''OK'', contentType = Some ''application/json'',
      json_body = Some (JObj [(''venues'',
        JArr [ex_active_venue,
              Venue ''v2'' ''t1'' ''Mill Lane'' ''2026-01-27T09:00:00Z'',
              ex_closed_venue])])\<rparr>"

definition ex_layout :: layout where
  "ex_layout = \<lparr>venues = [], layout_loading = True\<rparr>"

definition ex_ToString :: "jsval \<Rightarrow> string" where
  "ex_ToString v = ''[object Object]''"

text \<open>A rounding that leaves every magnitude as it is, for literals that are numbers.\<close>

definition exact_double :: "rat \<Rightarrow> rat option" where
  "exact_double q = Some q"

section \<open>Properties\<close>

subsection \<open>Helper lemmas\<close>

lemma submit_failed:
  "\<not> submitting s \<Longrightarrow> fail_submit err fb (begin_submit s) = s\<lparr>error := Some (message_or err fb)\<rparr>"
  by (simp add: fail_submit_def begin_submit_def)

lemma dropWhile_all_iff: "(\<forall>x \<in> set (dropWhile P xs). P x) \<longleftrightarrow> (\<forall>x \<in> set xs. P x)"
proof
  assume all: "\<forall>x \<in> set (dropWhile P xs). P x"
  have "dropWhile P xs = []"
  proof (rule ccontr)
    assume ne: "dropWhile P xs \<noteq> []"
    then have "\<not> P (hd (dropWhile P xs))" by (rule hd_dropWhile)
    moreover from ne have "hd (dropWhile P xs) \<in> set (dropWhile P xs)" by simp
    ultimately show False using all by blast
  qed
  then show "\<forall>x \<in> set xs. P x" by simp
next
  assume "\<forall>x \<in> set xs. P x"
  then show "\<forall>x \<in> set (dropWhile P xs). P x" by (auto dest: set_dropWhileD)
qed

lemma trim_empty_iff: "trim s = [] \<longleftrightarrow> (\<forall>c \<in> set s. is_whitespace c)"
  by (simp add: trim_def dropWhile_all_iff)

subsection \<open>Workflow pages\<close>

text \<open>
  Claim C2, as the specification states it, says that confirming a budget while none is
  selected issues no request. The page has no such guard: with \<open>selectedBudget\<close> empty, the
  Confirm button of a draft budget's card is enabled, and pressing it calls
  \<^verbatim>\<open>confirmBudget\<close> and then \<^verbatim>\<open>getBudgets\<close>.
\<close>

theorem confirm_without_selection:
  "selectedBudget ex_budget_page = None
   \<and> confirm_button_enabled ex_budget_page (ex_budget ''b1'' Draft)
   \<and> snd (handleConfirmBudget ex_budget_api ''t1'' ex_budget_page (ex_budget ''b1'' Draft))
       = [ConfirmBudget ''t1'' ''b1'' ex_payload ''operator-user'', GetBudgets ''t1'' ''v1'' None]"
  by (simp add: ex_budget_page_def confirm_button_enabled_def handleConfirmBudget_def
      ex_budget_api_def ex_budget_def CURRENT_USER_ID_def)

text \<open>
  Claim C2, amended: the confirm action does not depend on the selection. It acts on the
  budget of the card whose button was pressed: the first client call of
  \<^verbatim>\<open>handleConfirmBudget\<close> is always \<^verbatim>\<open>confirmBudget\<close> with that budget's id and payload,
  and the calls made are the same whatever \<open>selectedBudget\<close> holds.
\<close>

theorem confirm_acts_on_card:
  "(\<exists>rest. snd (handleConfirmBudget api tenantId s b)
       = ConfirmBudget tenantId (budget_id b) (budget_payload b) CURRENT_USER_ID # rest)
   \<and> snd (handleConfirmBudget api tenantId (s\<lparr>selectedBudget := sel\<rparr>) b)
       = snd (handleConfirmBudget api tenantId s b)"
  by (simp add: handleConfirmBudget_def split: sum.splits)

text \<open>
  Claim C3: a successful create of a budget, a labour plan or a cash snapshot puts the
  record the backend returned in front of the list the page held, which follows it
  unchanged. For a cash snapshot this holds of both the list of all snapshots and the
  history of the week.
\<close>

theorem create_prepends_one:
  "(venueId b \<noteq> [] \<and> call_createBudget bapi tenantId (venueId b) (formData b) CURRENT_USER_ID = Inr rb
      \<longrightarrow> budgets (fst (handleCreateBudget bapi tenantId b)) = budget rb # budgets b)
   \<and> (venueId l \<noteq> [] \<and> call_createLabourPlan lapi tenantId (venueId l) (formData l) CURRENT_USER_ID = Inr rl
      \<longrightarrow> labourPlans (fst (handleCreateLabourPlan lapi tenantId l)) = labourPlan rl # labourPlans l)
   \<and> (venueId c \<noteq> []
       \<and> call_createCashSnapshot capi tenantId (venueId c) (selectedWeek c) (formData c) CURRENT_USER_ID = Inr rc
      \<longrightarrow> snapshots (fst (handleCreateSnapshot capi tenantId c)) = snapshot rc # snapshots c
          \<and> weekHistory (fst (handleCreateSnapshot capi tenantId c)) = snapshot rc # weekHistory c)"
  by (simp add: handleCreateBudget_def handleCreateLabourPlan_def handleCreateSnapshot_def
      begin_submit_def end_submit_def)

theorem create_prepends_one_witness:
  "venueId ex_budget_page \<noteq> [] \<and> venueId ex_labour_page \<noteq> [] \<and> venueId (ex_cash_page []) \<noteq> []
   \<and> budgets (fst (handleCreateBudget ex_budget_api ''t1'' ex_budget_page))
       = [ex_budget ''b2'' Draft, ex_budget ''b1'' Draft]
   \<and> labourPlans (fst (handleCreateLabourPlan ex_labour_api ''t1'' ex_labour_page))
       = [ex_plan ''p2'' Draft, ex_plan ''p1'' Draft]
   \<and> snapshots (fst (handleCreateSnapshot ex_cash_api ''t1'' (ex_cash_page [])))
       = [ex_snapshot ''s2'', ex_snapshot ''s1'']
   \<and> weekHistory (fst (handleCreateSnapshot ex_cash_api ''t1'' (ex_cash_page [])))
       = [ex_snapshot ''s2'', ex_snapshot ''s1'']"
  using create_prepends_one [of ex_budget_page ex_budget_api "''t1''"
      "\<lparr>budget = ex_budget ''b2'' Draft, version = ex_budget_version\<rparr>"
      ex_labour_page ex_labour_api
      "\<lparr>labourPlan = ex_plan ''p2'' Draft, planVersion = ex_plan_version\<rparr>"
      "ex_cash_page []" ex_cash_api "\<lparr>snapshot = ex_snapshot ''s2''\<rparr>"]
  by (simp add: ex_budget_page_def ex_budget_api_def ex_labour_page_def ex_labour_api_def
      ex_cash_page_def ex_cash_api_def)

text \<open>
  Claim C4: when the write request of a handler fails (create, confirm, correct, upload,
  confirm or reject a candidate), the page ends in the state it started from with only the
  error message set: every list, the selection and the forms are as before. The handlers
  run from controls that are disabled while \<open>submitting\<close> holds.
\<close>

theorem failed_write_keeps_lists:
  "(venueId b \<noteq> [] \<and> \<not> submitting b
      \<and> call_createBudget bapi tenantId (venueId b) (formData b) CURRENT_USER_ID = Inl err
      \<longrightarrow> fst (handleCreateBudget bapi tenantId b)
            = b\<lparr>error := Some (message_or err ''Failed to create budget'')\<rparr>)
   \<and> (\<not> submitting b
      \<and> call_confirmBudget bapi tenantId (budget_id bu) (budget_payload bu) CURRENT_USER_ID = Inl err
      \<longrightarrow> fst (handleConfirmBudget bapi tenantId b bu)
            = b\<lparr>error := Some (message_or err ''Failed to confirm budget'')\<rparr>)
   \<and> (venueId l \<noteq> [] \<and> \<not> submitting l
      \<and> call_createLabourPlan lapi tenantId (venueId l) (formData l) CURRENT_USER_ID = Inl err
      \<longrightarrow> fst (handleCreateLabourPlan lapi tenantId l)
            = l\<lparr>error := Some (message_or err ''Failed to create labour plan'')\<rparr>)
   \<and> (\<not> submitting l
      \<and> call_confirmLabourPlan lapi tenantId (plan_id pl) (plan_payload pl) CURRENT_USER_ID = Inl err
      \<longrightarrow> fst (handleConfirmLabourPlan lapi tenantId l pl)
            = l\<lparr>error := Some (message_or err ''Failed to confirm labour plan'')\<rparr>)
   \<and> (venueId c \<noteq> [] \<and> \<not> submitting c
      \<and> call_createCashSnapshot capi tenantId (venueId c) (selectedWeek c) (formData c)
            CURRENT_USER_ID = Inl err
      \<longrightarrow> fst (handleCreateSnapshot capi tenantId c)
            = c\<lparr>error := Some (message_or err ''Failed to create snapshot'')\<rparr>)
   \<and> (correctionTarget c = Some target \<and> trim (correctionReason c) \<noteq> [] \<and> \<not> submitting c
      \<and> call_createCorrectionSnapshot capi tenantId (snapshot_id target) (selectedWeek c)
            (correctionData c) CURRENT_USER_ID (correctionReason c) = Inl err
      \<longrightarrow> fst (handleSubmitCorrection capi tenantId c)
            = c\<lparr>error := Some (message_or err ''Failed to create correction'')\<rparr>)
   \<and> (venueId e \<noteq> [] \<and> selectedFile e = Some upload \<and> \<not> submitting e
      \<and> call_uploadEvidence eapi tenantId (venueId e) upload (uploadSource e) CURRENT_USER_ID = Inl err
      \<longrightarrow> fst (handleUpload eapi tenantId e)
            = e\<lparr>error := Some (message_or err ''Failed to upload evidence'')\<rparr>)
   \<and> (\<not> submitting e
      \<and> call_confirmCandidate eapi tenantId (candidate_id ca) CURRENT_USER_ID = Inl err
      \<longrightarrow> fst (handleConfirm eapi tenantId e ca)
            = e\<lparr>error := Some (message_or err ''Failed to confirm candidate'')\<rparr>)
   \<and> (rejectTarget e = Some rt \<and> trim (rejectReason e) \<noteq> [] \<and> \<not> submitting e
      \<and> call_rejectCandidate eapi tenantId (candidate_id rt) CURRENT_USER_ID (rejectReason e) = Inl err
      \<longrightarrow> fst (handleReject eapi tenantId e)
            = e\<lparr>error := Some (message_or err ''Failed to reject candidate'')\<rparr>)"
  by (simp add: handleCreateBudget_def handleConfirmBudget_def handleCreateLabourPlan_def
      handleConfirmLabourPlan_def handleCreateSnapshot_def handleSubmitCorrection_def
      handleUpload_def handleConfirm_def handleReject_def submit_failed)

theorem failed_write_keeps_lists_witness:
  "fst (handleCreateBudget failing_budget_api ''t1'' ex_budget_page)
     = ex_budget_page\<lparr>error := Some ''Internal Server Error''\<rparr>
   \<and> fst (handleConfirmBudget failing_budget_api ''t1'' ex_budget_page (ex_budget ''b1'' Draft))
     = ex_budget_page\<lparr>error := Some ''Internal Server Error''\<rparr>
   \<and> fst (handleCreateLabourPlan failing_labour_api ''t1'' ex_labour_page)
     = ex_labour_page\<lparr>error := Some ''Internal Server Error''\<rparr>
   \<and> fst (handleConfirmLabourPlan failing_labour_api ''t1'' ex_labour_page (ex_plan ''p1'' Draft))
     = ex_labour_page\<lparr>error := Some ''Internal Server Error''\<rparr>
   \<and> fst (handleCreateSnapshot failing_cash_api ''t1'' (ex_cash_page ''typo''))
     = (ex_cash_page ''typo'')\<lparr>error := Some ''Internal Server Error''\<rparr>
   \<and> fst (handleSubmitCorrection failing_cash_api ''t1'' (ex_cash_page ''typo''))
     = (ex_cash_page ''typo'')\<lparr>error := Some ''Internal Server Error''\<rparr>
   \<and> fst (handleUpload failing_evidence_api ''t1'' (ex_evidence_page ''wrong week''))
     = (ex_evidence_page ''wrong week'')\<lparr>error := Some ''Internal Server Error''\<rparr>
   \<and> fst (handleConfirm failing_evidence_api ''t1'' (ex_evidence_page ''wrong week'')
            (ex_candidate ''c1'' Pending))
     = (ex_evidence_page ''wrong week'')\<lparr>error := Some ''Internal Server Error''\<rparr>
   \<and> fst (handleReject failing_evidence_api ''t1'' (ex_evidence_page ''wrong week''))
     = (ex_evidence_page ''wrong week'')\<lparr>error := Some ''Internal Server Error''\<rparr>"
proof -
  have t1: "trim (correctionReason (ex_cash_page ''typo'')) \<noteq> []"
    by (simp add: ex_cash_page_def trim_def is_whitespace_def)
  have t2: "trim (rejectReason (ex_evidence_page ''wrong week'')) \<noteq> []"
    by (simp add: ex_evidence_page_def trim_def is_whitespace_def)
  have b: "venueId ex_budget_page \<noteq> [] \<and> \<not> submitting ex_budget_page"
    by (simp add: ex_budget_page_def)
  have l: "venueId ex_labour_page \<noteq> [] \<and> \<not> submitting ex_labour_page"
    by (simp add: ex_labour_page_def)
  have c: "venueId (ex_cash_page ''typo'') \<noteq> [] \<and> \<not> submitting (ex_cash_page ''typo'')
           \<and> correctionTarget (ex_cash_page ''typo'') = Some (ex_snapshot ''s1'')"
    by (simp add: ex_cash_page_def)
  have e: "venueId (ex_evidence_page ''wrong week'') \<noteq> []
           \<and> \<not> submitting (ex_evidence_page ''wrong week'')
           \<and> selectedFile (ex_evidence_page ''wrong week'') = Some ''week,hours''
           \<and> rejectTarget (ex_evidence_page ''wrong week'') = Some (ex_candidate ''c1'' Pending)"
    by (simp add: ex_evidence_page_def)
  show ?thesis
    using t1 t2 b l c e
      failed_write_keeps_lists [where b = ex_budget_page and bapi = failing_budget_api
        and tenantId = "''t1''" and err = ex_failure and bu = "ex_budget ''b1'' Draft"
        and l = ex_labour_page and lapi = failing_labour_api and pl = "ex_plan ''p1'' Draft"
        and c = "ex_cash_page ''typo''" and capi = failing_cash_api
        and target = "ex_snapshot ''s1''"
        and e = "ex_evidence_page ''wrong week''" and eapi = failing_evidence_api
        and upload = "''week,hours''" and ca = "ex_candidate ''c1'' Pending"
        and rt = "ex_candidate ''c1'' Pending"]
    by (simp add: failing_budget_api_def failing_labour_api_def failing_cash_api_def
        failing_evidence_api_def ex_failure_def)
qed

text \<open>
  The refresh after a successful review is not part of the write: when the candidate was
  confirmed and the read of the pending candidates then fails, the candidates fetched just
  before are already stored.
\<close>

lemma refresh_failure_after_confirm:
  assumes "selectedEvidence e = Some ev"
    and "call_confirmCandidate api tenantId (candidate_id c) CURRENT_USER_ID = Inr r"
    and "call_getCandidatesByEvidence api tenantId (evidence_id ev) = Inr data"
    and "call_getPendingCandidates api tenantId = Inl err"
  shows "fst (handleConfirm api tenantId e c)
           = e\<lparr>candidates := data,
                error := Some (message_or err ''Failed to confirm candidate''),
                submitting := False\<rparr>"
  using assms
  by (simp add: handleConfirm_def refresh_candidates_def begin_submit_def fail_submit_def)

text \<open>
  Claim C5: a cash correction whose reason is empty or only white space, and a rejection
  of a candidate with such a reason, make no client call and leave the page as it was.
\<close>

theorem blank_reason_sends_nothing:
  assumes "\<forall>c \<in> set (correctionReason s). is_whitespace c"
    and "\<forall>c \<in> set (rejectReason e). is_whitespace c"
  shows "handleSubmitCorrection capi tenantId s = (s, [])
         \<and> handleReject eapi tenantId e = (e, [])"
  using assms
  by (simp add: handleSubmitCorrection_def handleReject_def trim_empty_iff split: option.splits)

theorem blank_reason_sends_nothing_witness:
  "correctionReason (ex_cash_page '' '') = '' ''
   \<and> rejectReason (ex_evidence_page []) = []
   \<and> correctionTarget (ex_cash_page '' '') \<noteq> None
   \<and> rejectTarget (ex_evidence_page []) \<noteq> None
   \<and> snd (handleSubmitCorrection ex_cash_api ''t1'' (ex_cash_page '' '')) = []
   \<and> snd (handleReject ex_evidence_api ''t1'' (ex_evidence_page [])) = []"
proof -
  have a: "\<forall>c \<in> set (correctionReason (ex_cash_page '' '')). is_whitespace c"
    by (simp add: ex_cash_page_def is_whitespace_def)
  have b: "\<forall>c \<in> set (rejectReason (ex_evidence_page [])). is_whitespace c"
    by (simp add: ex_evidence_page_def)
  from blank_reason_sends_nothing [OF a b, of ex_cash_api "''t1''" ex_evidence_api]
  show ?thesis by (simp add: ex_cash_page_def ex_evidence_page_def)
qed

subsection \<open>API client\<close>

lemma single_record_404:
  "status r = 404 \<Longrightarrow> single_record what key (Inr r) = Inr JNull"
  by (simp add: single_record_def ok_def)

lemma single_record_failure:
  "\<not> ok r \<Longrightarrow> status r \<noteq> 404 \<Longrightarrow>
   single_record what key (Inr r) = Inl (Error (''Failed to fetch '' @ what @ '': '' @ statusText r))"
  by (simp add: single_record_def)

text \<open>
  Claim C1, as the specification states it, has a single-record read that meets a status
  other than 404 outside 200 to 299 fail with the backend's error text when the body
  carries one. The reads never look at the body of such a response: a 500 whose body is
  \<^verbatim>\<open>{"error": "budget store offline"}\<close> fails with the status text only.
\<close>

theorem single_record_drops_error_text:
  "json_body ex_server_error = Some (JObj [(''error'', JStr ''budget store offline'')])
   \<and> getBudget (respond_with ex_server_error) ''t1'' ''b1''
       = Inl (Error ''Failed to fetch budget: Internal Server Error'')
   \<and> \<not> str_includes ''Failed to fetch budget: Internal Server Error'' ''budget store offline''"
  by (simp add: ex_server_error_def getBudget_def respond_with_def single_record_def ok_def
      startsWith_def)

text \<open>
  Claim C1, amended: for each of the seven single-record reads, a response of status 404
  yields \<^verbatim>\<open>null\<close>, and a response of any other status outside 200 to 299 raises an
  \<^verbatim>\<open>Error\<close> whose message is the read's own prefix followed by the HTTP status text.
\<close>

theorem single_record_reads:
  assumes "\<And>req. fetch req = Inr r"
  shows "(status r = 404 \<longrightarrow>
            getMondayBrief fetch tenantId venue week = Inr JNull
          \<and> getBudget fetch tenantId budgetId = Inr JNull
          \<and> getConfirmedBudget fetch tenantId venue = Inr JNull
          \<and> getLabourPlan fetch tenantId planId = Inr JNull
          \<and> getConfirmedLabourPlan fetch tenantId venue = Inr JNull
          \<and> getCashSnapshotByWeek fetch tenantId venue week = Inr JNull
          \<and> getEvidence fetch tenantId evidenceId = Inr JNull)
       \<and> (\<not> ok r \<and> status r \<noteq> 404 \<longrightarrow>
            getMondayBrief fetch tenantId venue week
              = Inl (Error (''Failed to fetch Monday brief: '' @ statusText r))
          \<and> getBudget fetch tenantId budgetId
              = Inl (Error (''Failed to fetch budget: '' @ statusText r))
          \<and> getConfirmedBudget fetch tenantId venue
              = Inl (Error (''Failed to fetch confirmed budget: '' @ statusText r))
          \<and> getLabourPlan fetch tenantId planId
              = Inl (Error (''Failed to fetch labour plan: '' @ statusText r))
          \<and> getConfirmedLabourPlan fetch tenantId venue
              = Inl (Error (''Failed to fetch confirmed labour plan: '' @ statusText r))
          \<and> getCashSnapshotByWeek fetch tenantId venue week
              = Inl (Error (''Failed to fetch cash snapshot: '' @ statusText r))
          \<and> getEvidence fetch tenantId evidenceId
              = Inl (Error (''Failed to fetch evidence: '' @ statusText r)))"
  by (simp add: assms getMondayBrief_def getBudget_def getConfirmedBudget_def getLabourPlan_def
      getConfirmedLabourPlan_def getCashSnapshotByWeek_def getEvidence_def
      single_record_404 single_record_failure)

theorem single_record_reads_witness:
  "status ex_not_found = 404
   \<and> getBudget (respond_with ex_not_found) ''t1'' ''b9'' = Inr JNull
   \<and> getEvidence (respond_with ex_not_found) ''t1'' ''e9'' = Inr JNull
   \<and> status ex_server_error = 500
   \<and> getBudget (respond_with ex_server_error) ''t1'' ''b1''
       = Inl (Error ''Failed to fetch budget: Internal Server Error'')
   \<and> getMondayBrief (respond_with ex_server_error) ''t1'' ''v1'' ''2026-01-26''
       = Inl (Error ''Failed to fetch Monday brief: Internal Server Error'')"
proof -
  have a: "\<And>req. respond_with ex_not_found req = Inr ex_not_found"
    by (simp add: respond_with_def)
  have b: "\<And>req. respond_with ex_server_error req = Inr ex_server_error"
    by (simp add: respond_with_def)
  show ?thesis
    using single_record_reads [OF a, where tenantId = "''t1''" and venue = "''v1''"
        and week = "''2026-01-26''" and budgetId = "''b9''" and planId = "''p9''"
        and evidenceId = "''e9''"]
      single_record_reads [OF b, where tenantId = "''t1''" and venue = "''v1''"
        and week = "''2026-01-26''" and budgetId = "''b1''" and planId = "''p1''"
        and evidenceId = "''e1''"]
    by (simp add: ex_not_found_def ex_server_error_def ok_def)
qed

lemma non_json_iff:
  "non_json h \<longleftrightarrow> (case h of None \<Rightarrow> True | Some ct \<Rightarrow> \<not> str_includes ct ''application/json'')"
  by (auto simp: non_json_def split: option.splits)

text \<open>
  Claim C6: \<^verbatim>\<open>uploadEvidence\<close> looks at the content type before it parses anything. A
  response whose \<^verbatim>\<open>content-type\<close> header is absent or does not contain
  \<^verbatim>\<open>application/json\<close> raises the diagnostic \<^verbatim>\<open>Error\<close> that names the non-JSON response
  and the HTTP status, whatever the status is, and never the \<^verbatim>\<open>SyntaxError\<close> of a failed
  parse.
\<close>

theorem upload_rejects_non_json:
  assumes "\<And>req. fetch req = Inr r"
    and "case contentType r of None \<Rightarrow> True | Some ct \<Rightarrow> \<not> str_includes ct ''application/json''"
  shows "uploadEvidence ToString fetch tenantId venue upload src uploadedBy
           = Inl (Error (''Server returned non-JSON response ('' @ show_nat (status r)
                         @ ''). This may indicate an authentication or routing issue.''))
         \<and> uploadEvidence ToString fetch tenantId venue upload src uploadedBy \<noteq> Inl SyntaxError"
  using assms(2) by (simp add: uploadEvidence_def assms(1) non_json_iff)

theorem upload_rejects_non_json_witness:
  "contentType ex_bad_gateway = Some ''text/html''
   \<and> uploadEvidence ex_ToString (respond_with ex_bad_gateway) ''t1'' ''v1'' ''week,hours'' Rota ''operator-user''
       = Inl (Error ''Server returned non-JSON response (502). This may indicate an authentication or routing issue.'')
   \<and> contentType ex_no_content_type = None \<and> ok ex_no_content_type
   \<and> uploadEvidence ex_ToString (respond_with ex_no_content_type) ''t1'' ''v1'' ''week,hours'' Rota ''operator-user''
       = Inl (Error ''Server returned non-JSON response (200). This may indicate an authentication or routing issue.'')"
proof -
  have a: "\<And>req. respond_with ex_bad_gateway req = Inr ex_bad_gateway"
    by (simp add: respond_with_def)
  have a': "case contentType ex_bad_gateway of None \<Rightarrow> True
            | Some ct \<Rightarrow> \<not> str_includes ct ''application/json''"
    by (simp add: ex_bad_gateway_def startsWith_def)
  have b: "\<And>req. respond_with ex_no_content_type req = Inr ex_no_content_type"
    by (simp add: respond_with_def)
  have b': "case contentType ex_no_content_type of None \<Rightarrow> True
            | Some ct \<Rightarrow> \<not> str_includes ct ''application/json''"
    by (simp add: ex_no_content_type_def)
  have n502: "show_nat 502 = ''502''" by code_simp
  have n200: "show_nat 200 = ''200''" by code_simp
  show ?thesis
    using upload_rejects_non_json [OF a a', where tenantId = "''t1''" and venue = "''v1''"
        and upload = "''week,hours''" and src = Rota and uploadedBy = "''operator-user''"
        and ToString = ex_ToString]
      upload_rejects_non_json [OF b b', where tenantId = "''t1''" and venue = "''v1''"
        and upload = "''week,hours''" and src = Rota and uploadedBy = "''operator-user''"
        and ToString = ex_ToString]
    by (simp add: ex_bad_gateway_def ex_no_content_type_def ok_def n502 n200)
qed

subsection \<open>Layout\<close>

lemma filter_active_records:
  "\<forall>v \<in> set vs. v \<noteq> JNull \<and> v \<noteq> JUndefined \<Longrightarrow>
   filter_active vs = Inr (filter (\<lambda>v. get_prop v ''status'' = Inr (JStr ''active'')) vs)"
proof (induction vs)
  case Nil
  then show ?case by simp
next
  case (Cons v vs)
  then have rest: "filter_active vs = Inr (filter (\<lambda>v. get_prop v ''status'' = Inr (JStr ''active'')) vs)"
    by simp
  from Cons.prems have "v \<noteq> JNull" "v \<noteq> JUndefined" by simp_all
  then obtain st where st: "get_prop v ''status'' = Inr st"
    by (cases v) simp_all
  show ?case by (simp add: rest st is_active_def)
qed

lemma Venue_has_no_status: "get_prop (Venue i t n c) ''status'' = Inr JUndefined"
  by (simp add: Venue_def)

text \<open>
  Claim C9: of the records \<^verbatim>\<open>getVenues\<close> returns, the venue selector keeps exactly those
  whose \<^verbatim>\<open>status\<close> property is the string \<^verbatim>\<open>"active"\<close>, in their order. A record without
  that property is left out without any error, and so is every record of the shape the
  client's \<^verbatim>\<open>Venue\<close> type declares.
\<close>

theorem selector_lists_active_venues:
  assumes "getVenues fetch tenantId = Inr (JArr vs)"
    and "\<forall>v \<in> set vs. v \<noteq> JNull \<and> v \<noteq> JUndefined"
  shows "venues (loadVenues fetch tenantId s)
           = filter (\<lambda>v. get_prop v ''status'' = Inr (JStr ''active'')) vs
         \<and> (\<forall>kvs. map_of kvs ''status'' = None
               \<longrightarrow> JObj kvs \<notin> set (venues (loadVenues fetch tenantId s)))
         \<and> Venue i t n c \<notin> set (venues (loadVenues fetch tenantId s))
         \<and> layout_loading (loadVenues fetch tenantId s) = False"
proof -
  have v: "venues (loadVenues fetch tenantId s)
           = filter (\<lambda>v. get_prop v ''status'' = Inr (JStr ''active'')) vs"
    by (simp add: loadVenues_def assms(1) filter_active_records [OF assms(2)])
  have l: "layout_loading (loadVenues fetch tenantId s) = False"
    by (simp add: loadVenues_def assms(1) filter_active_records [OF assms(2)])
  show ?thesis by (simp add: v l Venue_has_no_status)
qed

theorem selector_lists_active_venues_witness:
  "getVenues (respond_with ex_venues_response) ''t1''
     = Inr (JArr [ex_active_venue, Venue ''v2'' ''t1'' ''Mill Lane'' ''2026-01-27T09:00:00Z'',
                  ex_closed_venue])
   \<and> venues (loadVenues (respond_with ex_venues_response) ''t1'' ex_layout) = [ex_active_venue]"
proof -
  have g: "getVenues (respond_with ex_venues_response) ''t1''
     = Inr (JArr [ex_active_venue, Venue ''v2'' ''t1'' ''Mill Lane'' ''2026-01-27T09:00:00Z'',
                  ex_closed_venue])"
    by (simp add: getVenues_def respond_with_def ex_venues_response_def ok_def json_def or_empty_def)
  have r: "\<forall>v \<in> set [ex_active_venue, Venue ''v2'' ''t1'' ''Mill Lane'' ''2026-01-27T09:00:00Z'',
                  ex_closed_venue]. v \<noteq> JNull \<and> v \<noteq> JUndefined"
    by (simp add: ex_active_venue_def ex_closed_venue_def Venue_def)
  show ?thesis
    using selector_lists_active_venues [OF g r, of ex_layout]
    by (simp add: g ex_active_venue_def ex_closed_venue_def Venue_def)
qed

subsection \<open>Formatting utilities: dates\<close>

lemma month_start_bounds:
  assumes "0 \<le> mn" "mn < 12"
  shows "0 \<le> month_start mn l \<and> month_start mn l \<le> 335"
proof -
  from assms have "mn = 0 \<or> mn = 1 \<or> mn = 2 \<or> mn = 3 \<or> mn = 4 \<or> mn = 5 \<or> mn = 6
     \<or> mn = 7 \<or> mn = 8 \<or> mn = 9 \<or> mn = 10 \<or> mn = 11" by presburger
  then show ?thesis by (elim disjE) (simp_all add: month_start_def)
qed

lemma MakeDay_day_rollover: "MakeDay y m d = MakeDay y m 1 + (d - 1)"
  by (simp add: MakeDay_def Let_def)

lemma MakeDay_month_rollover: "MakeDay y (m + 12 * k) d = MakeDay (y + k) m d"
  by (simp add: MakeDay_def Let_def add.assoc)

lemma div_between:
  fixes a :: int
  assumes "lo \<le> a" "a \<le> hi" "0 < c"
  shows "lo div c \<le> a div c \<and> a div c \<le> hi div c"
  using assms by (simp add: zdiv_mono1)

lemma DayFromYear_bounds:
  assumes "- 210000 \<le> y" "y \<le> 210000"
  shows "- 80000000 \<le> DayFromYear y \<and> DayFromYear y \<le> 80000000"
proof -
  have a: "(- 211969) div 4 \<le> (y - 1969) div 4 \<and> (y - 1969) div 4 \<le> 208031 div 4"
    using assms by (intro div_between) simp_all
  have b: "(- 211901) div 100 \<le> (y - 1901) div 100 \<and> (y - 1901) div 100 \<le> 208099 div 100"
    using assms by (intro div_between) simp_all
  have c: "(- 211601) div 400 \<le> (y - 1601) div 400 \<and> (y - 1601) div 400 \<le> 208399 div 400"
    using assms by (intro div_between) simp_all
  from a b c assms show ?thesis unfolding DayFromYear_def by simp
qed

lemma MakeDay_in_range:
  assumes "\<bar>y\<bar> \<le> 200000" "\<bar>m\<bar> \<le> 100000" "\<bar>d\<bar> \<le> 10000000"
  shows "\<bar>MakeDay (MakeFullYear y) (m - 1) d\<bar> \<le> 100000000"
proof -
  define ym where "ym = MakeFullYear y + (m - 1) div 12"
  have fy: "\<bar>MakeFullYear y\<bar> \<le> 200000" using assms(1) by (auto simp: MakeFullYear_def)
  define q where "q = (m - 1) div 12"
  have "(- 100001) div 12 \<le> q \<and> q \<le> 99999 div 12"
    unfolding q_def using assms(2) by (intro div_between) simp_all
  then have "- 8334 \<le> q" "q \<le> 8333" by simp_all
  with fy have "- 210000 \<le> ym" "ym \<le> 210000"
    unfolding ym_def q_def [symmetric] by linarith+
  then have dy: "- 80000000 \<le> DayFromYear ym \<and> DayFromYear ym \<le> 80000000"
    by (rule DayFromYear_bounds)
  have ms: "0 \<le> month_start ((m - 1) mod 12) (InLeapYear ym)
            \<and> month_start ((m - 1) mod 12) (InLeapYear ym) \<le> 335"
    by (rule month_start_bounds) simp_all
  have "MakeDay (MakeFullYear y) (m - 1) d
          = DayFromYear ym + month_start ((m - 1) mod 12) (InLeapYear ym) + d - 1"
    by (simp add: MakeDay_def ym_def Let_def)
  with dy ms assms(3) show ?thesis by linarith
qed

lemma parseUKDate_segments:
  "length (split_on CHR ''/'' s) \<noteq> 3 \<Longrightarrow> parseUKDate s = None"
  by (auto simp: parseUKDate_def split: list.splits)

lemma parseUKDate_NaN:
  "split_on CHR ''/'' s = [a, b, c] \<Longrightarrow>
   parseInt10 a = None \<or> parseInt10 b = None \<or> parseInt10 c = None \<Longrightarrow> parseUKDate s = None"
  by (auto simp: parseUKDate_def split: option.splits)

text \<open>
  Claim C7: \<^verbatim>\<open>parseUKDate("27/01/2026")\<close> is the \<^verbatim>\<open>Date\<close> whose time value is
  1769472000000, midnight UTC of 27 January 2026, which is \<^verbatim>\<open>Date.UTC(2026, 0, 27)\<close>. A
  string that does not split on \<^verbatim>\<open>/\<close> into exactly three segments, or one of whose three
  segments \<^verbatim>\<open>parseInt\<close> reads as \<^verbatim>\<open>NaN\<close>, gives \<^verbatim>\<open>null\<close>.
\<close>

theorem parseUKDate_valid_and_malformed:
  "parseUKDate ''27/01/2026'' = Some 1769472000000
   \<and> Date_UTC 2026 0 27 = Some 1769472000000
   \<and> (length (split_on CHR ''/'' s) \<noteq> 3 \<longrightarrow> parseUKDate s = None)
   \<and> (split_on CHR ''/'' s' = [a, b, c]
        \<and> (parseInt10 a = None \<or> parseInt10 b = None \<or> parseInt10 c = None)
      \<longrightarrow> parseUKDate s' = None)"
proof -
  have 1: "parseUKDate ''27/01/2026'' = Some 1769472000000" by code_simp
  have 2: "Date_UTC 2026 0 27 = Some 1769472000000" by code_simp
  show ?thesis using 1 2 parseUKDate_segments parseUKDate_NaN by blast
qed

theorem parseUKDate_valid_and_malformed_witness:
  "split_on CHR ''/'' ''27-01-2026'' = [''27-01-2026'']
   \<and> parseUKDate ''27-01-2026'' = None
   \<and> split_on CHR ''/'' ''27/Jan/2026'' = [''27'', ''Jan'', ''2026'']
   \<and> parseInt10 ''Jan'' = None
   \<and> parseUKDate ''27/Jan/2026'' = None"
proof -
  have s1: "split_on CHR ''/'' ''27-01-2026'' = [''27-01-2026'']" by simp
  have s2: "split_on CHR ''/'' ''27/Jan/2026'' = [''27'', ''Jan'', ''2026'']" by simp
  have n: "parseInt10 ''Jan'' = None"
    by (simp add: parseInt10_def is_whitespace_def is_digit_def)
  show ?thesis
    using parseUKDate_valid_and_malformed [of "''27-01-2026''" "''27/Jan/2026''" "''27''" "''Jan''" "''2026''"]
    by (simp add: s1 s2 n)
qed

text \<open>
  Claim C10: \<^verbatim>\<open>parseUKDate\<close> does not validate the day or the month. Whenever the three
  segments parse as integers (a day up to 10000000 in magnitude, a month up to 100000, a
  year up to 200000, which keeps the date within the range a \<^verbatim>\<open>Date\<close> can hold), the
  result is a \<^verbatim>\<open>Date\<close>: day \<open>d\<close> of a month is \<open>d - 1\<close> days after its first
  day, and twelve more months are one more year. So \<^verbatim>\<open>"32/01/2026"\<close> is 1 February
  2026, the date \<^verbatim>\<open>"01/02/2026"\<close> gives, of time value 1769904000000.
\<close>

theorem parseUKDate_rolls_over:
  assumes "split_on CHR ''/'' s = [a, b, c]"
    and "parseInt10 a = Some d" and "parseInt10 b = Some m" and "parseInt10 c = Some y"
    and "\<bar>d\<bar> \<le> 10000000" and "\<bar>m\<bar> \<le> 100000" and "\<bar>y\<bar> \<le> 200000"
  shows "parseUKDate s = Some ((MakeDay (MakeFullYear y) (m - 1) 1 + (d - 1)) * msPerDay)
         \<and> MakeDay (MakeFullYear y) (m - 1 + 12 * k) 1 = MakeDay (MakeFullYear y + k) (m - 1) 1
         \<and> parseUKDate ''32/01/2026'' = Some 1769904000000
         \<and> parseUKDate ''01/02/2026'' = Some 1769904000000"
proof -
  have r: "\<bar>MakeDay (MakeFullYear y) (m - 1) d\<bar> \<le> 100000000"
    using assms(7,6,5) by (rule MakeDay_in_range)
  then have c: "TimeClip (MakeDay (MakeFullYear y) (m - 1) d * msPerDay)
                  = Some (MakeDay (MakeFullYear y) (m - 1) d * msPerDay)"
    by (simp add: TimeClip_def msPerDay_def abs_mult)
  have "parseUKDate s = Some (MakeDay (MakeFullYear y) (m - 1) d * msPerDay)"
    by (simp add: parseUKDate_def assms(1-4) Date_UTC_def c)
  then have 1: "parseUKDate s = Some ((MakeDay (MakeFullYear y) (m - 1) 1 + (d - 1)) * msPerDay)"
    using MakeDay_day_rollover [of "MakeFullYear y" "m - 1" d] by simp
  have 2: "parseUKDate ''32/01/2026'' = Some 1769904000000" by code_simp
  have 3: "parseUKDate ''01/02/2026'' = Some 1769904000000" by code_simp
  show ?thesis using 1 2 3 MakeDay_month_rollover by simp
qed

theorem parseUKDate_rolls_over_witness:
  "split_on CHR ''/'' ''32/01/2026'' = [''32'', ''01'', ''2026'']
   \<and> parseInt10 ''32'' = Some 32 \<and> parseInt10 ''01'' = Some 1 \<and> parseInt10 ''2026'' = Some 2026
   \<and> parseUKDate ''32/01/2026'' = Some ((MakeDay 2026 0 1 + 31) * msPerDay)
   \<and> (MakeDay 2026 0 1 + 31) * msPerDay = 1769904000000
   \<and> MakeDay 2026 1 1 = MakeDay 2026 0 1 + 31"
proof -
  have s: "split_on CHR ''/'' ''32/01/2026'' = [''32'', ''01'', ''2026'']" by simp
  have a: "parseInt10 ''32'' = Some 32" by code_simp
  have b: "parseInt10 ''01'' = Some 1" by code_simp
  have c: "parseInt10 ''2026'' = Some 2026" by code_simp
  have v: "(MakeDay 2026 0 1 + 31) * msPerDay = 1769904000000" by code_simp
  have f: "MakeDay 2026 1 1 = MakeDay 2026 0 1 + 31" by code_simp
  have fy: "MakeFullYear 2026 = 2026" by (simp add: MakeFullYear_def)
  show ?thesis
    using parseUKDate_rolls_over [OF s a b c, of 0] s a b c v f fy by simp
qed

subsection \<open>Formatting utilities: currency\<close>

lemma digit_char_props:
  assumes "d < 10"
  shows "is_digit (digit_char d) \<and> digit_value (digit_char d) = d \<and> digit_char d \<noteq> CHR '',''"
proof -
  from assms have "d = 0 \<or> d = 1 \<or> d = 2 \<or> d = 3 \<or> d = 4 \<or> d = 5 \<or> d = 6 \<or> d = 7
      \<or> d = 8 \<or> d = 9" by presburger
  then show ?thesis
    by (elim disjE) (simp_all add: digit_char_def is_digit_def digit_value_def)
qed

lemma show_nat_digits: "c \<in> set (show_nat n) \<Longrightarrow> is_digit c \<and> c \<noteq> CHR '',''"
proof (induction n arbitrary: c rule: show_nat.induct)
  case (1 n)
  show ?case
  proof (cases "n < 10")
    case True
    with "1.prems" have "c = digit_char n" by (simp add: show_nat.simps [of n])
    with True show ?thesis using digit_char_props by simp
  next
    case False
    with "1.prems" have "c \<in> set (show_nat (n div 10)) \<or> c = digit_char (n mod 10)"
      by (auto simp: show_nat.simps [of n])
    then show ?thesis
    proof
      assume "c \<in> set (show_nat (n div 10))"
      with False "1.IH" show ?thesis by simp
    next
      assume "c = digit_char (n mod 10)"
      then show ?thesis using digit_char_props [of "n mod 10"] by simp
    qed
  qed
qed

lemma digits_value_snoc: "digits_value (ds @ [c]) = 10 * digits_value ds + digit_value c"
  by (simp add: digits_value_def)

lemma digits_value_show_nat: "digits_value (show_nat n) = n"
proof (induction n rule: show_nat.induct)
  case (1 n)
  show ?case
  proof (cases "n < 10")
    case True
    then show ?thesis
      using digit_char_props [of n] by (simp add: show_nat.simps [of n] digits_value_def)
  next
    case False
    with "1.IH" have "digits_value (show_nat (n div 10)) = n div 10" by simp
    with False show ?thesis
      using digit_char_props [of "n mod 10"]
      by (simp add: show_nat.simps [of n] digits_value_snoc)
  qed
qed

lemma group3_rev_filter:
  "filter (\<lambda>c. c \<noteq> CHR '','') (group3_rev ds) = filter (\<lambda>c. c \<noteq> CHR '','') ds"
  by (induction ds rule: group3_rev.induct) simp_all

lemma grouped_without_commas: "filter (\<lambda>c. c \<noteq> CHR '','') (grouped n) = show_nat n"
proof -
  have "filter (\<lambda>c. c \<noteq> CHR '','') (show_nat n) = show_nat n"
    using show_nat_digits [of _ n] by (simp add: filter_id_conv)
  then show ?thesis
    by (simp add: grouped_def rev_filter [symmetric] group3_rev_filter)
qed

lemma group3_rev_commas:
  "CHR '','' \<notin> set ds \<Longrightarrow> i < length (group3_rev ds) \<Longrightarrow>
   (group3_rev ds ! i = CHR '','') = (i mod 4 = 3)"
proof (induction ds arbitrary: i rule: group3_rev.induct)
  case (1 a b c d rest)
  consider "i = 0" | "i = 1" | "i = 2" | "i = 3" | "4 \<le> i" by linarith
  then show ?case
  proof cases
    case 5
    then obtain j where j: "i = j + 4" by (metis le_add_diff_inverse2)
    with "1.prems" have "j < length (group3_rev (d # rest))" by simp
    moreover from "1.prems" have "CHR '','' \<notin> set (d # rest)" by simp
    ultimately have "(group3_rev (d # rest) ! j = CHR '','') = (j mod 4 = 3)"
      by (rule "1.IH"[rotated])
    then show ?thesis by (simp add: j)
  qed (use "1.prems" in auto)
qed (auto simp: nth_Cons' less_Suc_eq)

lemma grouped_commas:
  "i < length (grouped n) \<Longrightarrow> (rev (grouped n) ! i = CHR '','') = (i mod 4 = 3)"
proof -
  assume "i < length (grouped n)"
  moreover have "CHR '','' \<notin> set (rev (show_nat n))"
    using show_nat_digits [of "CHR '',''" n] by auto
  ultimately show ?thesis
    by (simp add: grouped_def group3_rev_commas)
qed

lemma half_expand_cents_nearest:
  "\<bar>of_nat (half_expand_cents q) / 100 - \<bar>q\<bar>\<bar> \<le> 1 / 200"
proof -
  define x :: rat where "x = \<bar>q\<bar> * 100 + 1 / 2"
  have x0: "0 \<le> x" by (simp add: x_def)
  then have "0 \<le> \<lfloor>x\<rfloor>" by simp
  then have c: "(of_nat (half_expand_cents q) :: rat) = of_int \<lfloor>x\<rfloor>"
    by (simp add: half_expand_cents_def x_def [symmetric])
  have "of_int \<lfloor>x\<rfloor> \<le> x" "x < of_int \<lfloor>x\<rfloor> + 1" by linarith+
  then have "\<bar>q\<bar> * 100 - 1 / 2 < of_int \<lfloor>x\<rfloor>" "of_int \<lfloor>x\<rfloor> \<le> \<bar>q\<bar> * 100 + 1 / 2"
    by (simp_all add: x_def)
  then have "of_int \<lfloor>x\<rfloor> / 100 - \<bar>q\<bar> \<le> 1 / 200"
    "- (1 / 200) \<le> of_int \<lfloor>x\<rfloor> / 100 - \<bar>q\<bar>" by linarith+
  then show ?thesis unfolding c abs_le_iff by (intro conjI) linarith+
qed

lemma is_digit_cases:
  assumes "is_digit c"
  shows "c \<in> set ''0123456789''"
proof -
  define n :: nat where "n = of_char c"
  from assms have "48 \<le> n" "n \<le> 57" by (simp_all add: is_digit_def n_def)
  then have "n = 48 \<or> n = 49 \<or> n = 50 \<or> n = 51 \<or> n = 52 \<or> n = 53 \<or> n = 54 \<or> n = 55
      \<or> n = 56 \<or> n = 57" by presburger
  then have "n \<in> of_char ` set ''0123456789''" by (elim disjE) simp_all
  then obtain d where "d \<in> set ''0123456789''" "(of_char c :: nat) = of_char d"
    unfolding n_def by blast
  then show ?thesis by (simp only: of_char_eq_iff)
qed

lemma two_digits_props:
  "length (two_digits k) = 2 \<and> (\<forall>c \<in> set (two_digits k). is_digit c)
   \<and> (k < 100 \<longrightarrow> digits_value (two_digits k) = k)"
proof -
  have a: "is_digit (digit_char (k div 10 mod 10))" "is_digit (digit_char (k mod 10))"
    using digit_char_props [of "k div 10 mod 10"] digit_char_props [of "k mod 10"] by simp_all
  have b: "digit_value (digit_char (k div 10 mod 10)) = k div 10 mod 10"
    "digit_value (digit_char (k mod 10)) = k mod 10"
    using digit_char_props [of "k div 10 mod 10"] digit_char_props [of "k mod 10"] by simp_all
  show ?thesis using a b by (auto simp: two_digits_def digits_value_def)
qed

lemma parseFloat_not_numeric:
  assumes "s = [] \<or> (\<not> is_whitespace (hd s) \<and> hd s \<notin> set ''+-.I0123456789'')"
  shows "parseFloat rd s = NaN"
proof (cases s)
  case Nil
  then show ?thesis by (simp add: parseFloat_def startsWith_def)
next
  case (Cons c cs)
  with assms have c: "\<not> is_whitespace c" "c \<notin> set ''+-.I0123456789''" by simp_all
  from c(2) have d: "\<not> is_digit c"
    using is_digit_cases [of c] by auto
  show ?thesis using c d by (auto simp: parseFloat_def Cons startsWith_def Let_def)
qed

text \<open>
  Claim C8: for a finite number, \<^verbatim>\<open>formatCurrency\<close> gives the pound sign followed by the
  number (a minus sign first when it is negative) rounded to the nearest hundredth: the
  integer part in decimal digits with a comma before every group of three digits counted
  from the right, a full stop, and exactly two fraction digits. For an input whose numeric
  conversion is \<^verbatim>\<open>NaN\<close>, such as a string that does not begin with a number, it gives the
  pound sign followed by \<^verbatim>\<open>0.00\<close>.
\<close>

theorem formatCurrency_renders:
  "formatCurrency rd (Num (Finite negative q))
     = pound_sign # units ((if negative then ''-'' else [])
                           @ grouped (half_expand_cents q div 100) @ ''.''
                           @ two_digits (half_expand_cents q mod 100))
   \<and> \<bar>of_nat (half_expand_cents q) / 100 - \<bar>q\<bar>\<bar> \<le> 1 / 200
   \<and> filter (\<lambda>c. c \<noteq> CHR '','') (grouped n) = show_nat n
   \<and> digits_value (show_nat n) = n
   \<and> (\<forall>i < length (grouped n). (rev (grouped n) ! i = CHR '','') = (i mod 4 = 3))
   \<and> length (two_digits k) = 2
   \<and> (\<forall>c \<in> set (two_digits k). is_digit c)
   \<and> (k < 100 \<longrightarrow> digits_value (two_digits k) = k)
   \<and> (to_number rd v = NaN \<longrightarrow> formatCurrency rd v = pound_sign # units ''0.00'')
   \<and> (s = [] \<or> (\<not> is_whitespace (hd s) \<and> hd s \<notin> set ''+-.I0123456789'')
        \<longrightarrow> formatCurrency rd (Str s) = pound_sign # units ''0.00'')"
proof -
  have 1: "formatCurrency rd (Num (Finite negative q))
     = pound_sign # units ((if negative then ''-'' else [])
                           @ grouped (half_expand_cents q div 100) @ ''.''
                           @ two_digits (half_expand_cents q mod 100))"
    by (simp add: formatCurrency_def to_number_def toLocaleString_enGB_2_def)
  have 2: "to_number rd v = NaN \<longrightarrow> formatCurrency rd v = pound_sign # units ''0.00''"
    by (simp add: formatCurrency_def)
  have 3: "s = [] \<or> (\<not> is_whitespace (hd s) \<and> hd s \<notin> set ''+-.I0123456789'')
        \<longrightarrow> formatCurrency rd (Str s) = pound_sign # units ''0.00''"
    using parseFloat_not_numeric [of s rd] by (simp add: formatCurrency_def to_number_def)
  have 4: "\<forall>i < length (grouped n). (rev (grouped n) ! i = CHR '','') = (i mod 4 = 3)"
    by (simp add: grouped_commas)
  have 5: "length (two_digits k) = 2" using two_digits_props [of k] by simp
  have 6: "\<forall>c \<in> set (two_digits k). is_digit c" using two_digits_props [of k] by simp
  have 7: "k < 100 \<longrightarrow> digits_value (two_digits k) = k" using two_digits_props [of k] by simp
  show ?thesis
    by (intro conjI 1 2 3 4 5 6 7 half_expand_cents_nearest grouped_without_commas
        digits_value_show_nat)
qed

theorem formatCurrency_renders_witness:
  "formatCurrency exact_double (Num (Finite False 1000)) = pound_sign # units ''1,000.00''
   \<and> formatCurrency exact_double (Num (Finite True (2469 / 2))) = pound_sign # units ''-1,234.50''
   \<and> formatCurrency exact_double (Str ''n/a'') = pound_sign # units ''0.00''
   \<and> grouped 1234567 = ''1,234,567''
   \<and> rev (grouped 1234567) ! 3 = CHR '',''
   \<and> digits_value (two_digits 50) = 50"
proof -
  have c1: "half_expand_cents 1000 = 100000"
  proof -
    have "\<lfloor>\<bar>1000 :: rat\<bar> * 100 + 1 / 2\<rfloor> = 100000" by (simp add: floor_eq_iff)
    then show ?thesis by (simp add: half_expand_cents_def)
  qed
  have c2: "half_expand_cents (2469 / 2) = 123450"
  proof -
    have "\<lfloor>\<bar>2469 / 2 :: rat\<bar> * 100 + 1 / 2\<rfloor> = 123450" by (simp add: floor_eq_iff)
    then show ?thesis by (simp add: half_expand_cents_def)
  qed
  have g1: "grouped 1000 = ''1,000''"
    by (simp add: grouped_def show_nat.simps digit_char_def)
  have g2: "grouped 1234 = ''1,234''"
    by (simp add: grouped_def show_nat.simps digit_char_def)
  have g3: "grouped 1234567 = ''1,234,567''"
    by (simp add: grouped_def show_nat.simps digit_char_def)
  have t1: "two_digits 0 = ''00''" by (simp add: two_digits_def digit_char_def)
  have t2: "two_digits 50 = ''50''" by (simp add: two_digits_def digit_char_def)
  have l: "3 < length (grouped 1234567)" by (simp add: g3)
  have w: "\<not> is_whitespace (hd ''n/a'') \<and> hd ''n/a'' \<notin> set ''+-.I0123456789''"
    by (simp add: is_whitespace_def)
  note inst = formatCurrency_renders [of exact_double False 1000 1234567 50 "Str ''n/a''" "''n/a''"]
  have a: "formatCurrency exact_double (Num (Finite False 1000)) = pound_sign # units ''1,000.00''"
    using inst by (simp add: c1 g1 t1)
  have b: "formatCurrency exact_double (Num (Finite True (2469 / 2))) = pound_sign # units ''-1,234.50''"
    using formatCurrency_renders [of exact_double True "2469 / 2" 1234567 50 "Str ''n/a''" "''n/a''"]
    by (simp add: c2 g2 t2)
  have c: "formatCurrency exact_double (Str ''n/a'') = pound_sign # units ''0.00''"
    using inst w by simp
  have d: "rev (grouped 1234567) ! 3 = CHR '',''"
    using inst l by simp
  have e: "digits_value (two_digits 50) = 50"
    using inst by simp
  show ?thesis using a b c d e g3 by simp
qed

end
